theory Spec2Isabelle
  imports Main "HOL-Library.AList"
begin

section \<open>Data model of the workflow operator\<close>

text \<open>
  The operator (\<^verbatim>\<open>workflow/controller/operator.go\<close>) works on a workflow object whose
  status holds a map from node IDs to node statuses. Times are nanoseconds since Go's zero
  time, so that \<^verbatim>\<open>IsZero\<close> is equality with 0. Go errors are represented by their message.
\<close>

datatype NodePhase =
  NodePending | NodeRunning | NodeSucceeded | NodeSkipped | NodeFailed | NodeError | NodeOmitted

datatype NodeType =
  NodeTypePod | NodeTypeContainer | NodeTypeSteps | NodeTypeStepGroup | NodeTypeDAG
  | NodeTypeTaskGroup | NodeTypeRetry | NodeTypeSkipped | NodeTypeSuspend

datatype WorkflowPhase =
  WorkflowUnknown | WorkflowPending | WorkflowRunning | WorkflowSucceeded | WorkflowFailed
  | WorkflowError

datatype ShutdownStrategy = ShutdownNone | ShutdownStop | ShutdownTerminate

record MemoizationStatus =
  Hit :: bool
  Key :: string
  CacheName :: string

record Outputs =
  Parameters :: "(string \<times> string) list"
  Result :: "string option"
  ExitCode :: "string option"

record NodeStatus =
  ID :: string
  Name :: string
  DisplayName :: string
  Type :: NodeType
  TemplateName :: string
  TemplateScope :: string
  Phase :: NodePhase
  BoundaryID :: string
  Message :: string
  StartedAt :: int
  FinishedAt :: int
  PodIP :: string
  Daemoned :: "bool option"
  Inputs :: "(string \<times> string) list option"
  NodeOutputs :: "Outputs option"
  Children :: "string list"
  HostNodeName :: string
  NodeMemoizationStatus :: "MemoizationStatus option"
  SynchronizationWaiting :: "string option"
  EstimatedDuration :: int
  ResourcesDuration :: "(string \<times> int) list"

text \<open>
  The panics of the operator, one constructor for each panic site that is modelled.
\<close>

datatype panic =
  PanicNodeUninitialized string
  | PanicNodeAlreadyInitialized string
  | PanicParentNotInitialized string
  | PanicWorkflowAlreadyFulfilled
  | PanicChildIndexOutOfBounds
  | PanicChildNotFound
  | PanicNotMemoized
  | PanicMismatchedResourceVersions
  | PanicIndexOutOfRange
  | PanicNilPointer
  | PanicNotSuspend

text \<open>
  The collaborators of the operator that the modelled functions call: each field is the
  answer the collaborator gives (configuration flags, the error, if any, of an API call, and
  the library functions whose results the operator only passes on).
\<close>

record controller =
  nodeEventsEnabled :: bool
  wfArchiveEnabled :: bool
  isArchivable :: bool
  deletePDBError :: "string option"
  estimateNodeDuration :: "string \<Rightarrow> int"
  estimateWorkflowDuration :: int
  formatSeconds :: "int \<Rightarrow> string"
  marshalFailures :: "NodeStatus list \<Rightarrow> string"
  Errorf :: "string \<Rightarrow> string"

text \<open>
  The workflow object: metadata, the part of the status the operator reads and writes, and
  the method \<^verbatim>\<open>NodeID\<close> that maps a node name to its ID. The nodes are an association list,
  since the operator iterates over them; Go iterates a map in no fixed order, which here is
  the order of the list.
\<close>

record Workflow =
  wfName :: string
  wfResourceVersion :: string
  wfLabels :: "string \<rightharpoonup> string"
  NodeID :: "string \<Rightarrow> string"
  wfNodes :: "(string \<times> NodeStatus) list"
  wfPhase :: WorkflowPhase
  wfMessage :: string
  wfStartedAt :: int
  wfFinishedAt :: int
  wfEstimatedDuration :: int
  wfCompletedCondition :: bool

record wfOperationCtx =
  wfObj :: Workflow
  orig :: Workflow
  specOnExit :: string
  specShutdown :: ShutdownStrategy
  specHasPDB :: bool
  workflowDeadline :: "int option"
  globalParams :: "string \<rightharpoonup> string"
  updated :: bool
  errorLog :: "string list"
  events :: "(string \<times> string \<times> string) list"
  requeued :: bool
  requeuedAfter :: "int list"
  podCleanupQueue :: "(string \<times> string) list"
  syncReleased :: "string list"
  ctrl :: controller

abbreviation nodes :: "wfOperationCtx \<Rightarrow> (string \<times> NodeStatus) list" where
  "nodes woc \<equiv> wfNodes (wfObj woc)"

definition setNode :: "wfOperationCtx \<Rightarrow> string \<Rightarrow> NodeStatus \<Rightarrow> wfOperationCtx" where
  "setNode woc nodeId node = woc\<lparr>wfObj := (wfObj woc)\<lparr>wfNodes := AList.update nodeId node (nodes woc)\<rparr>\<rparr>"

subsection \<open>Phase predicates\<close>

text \<open>
  Modelled from the spec: the methods \<^verbatim>\<open>Fulfilled\<close>, \<^verbatim>\<open>FailedOrError\<close>, \<^verbatim>\<open>Completed\<close> of the
  API types (package \<^verbatim>\<open>v1alpha1\<close>) are not part of the sources at hand. The spec names the
  terminal node phases: Succeeded, Failed, Error, Skipped, Omitted.
\<close>

fun FailedOrError :: "NodePhase \<Rightarrow> bool" where
  "FailedOrError NodeFailed = True"
| "FailedOrError NodeError = True"
| "FailedOrError _ = False"

fun Fulfilled :: "NodePhase \<Rightarrow> bool" where
  "Fulfilled NodeSucceeded = True"
| "Fulfilled NodeFailed = True"
| "Fulfilled NodeError = True"
| "Fulfilled NodeSkipped = True"
| "Fulfilled NodeOmitted = True"
| "Fulfilled _ = False"

fun Completed :: "WorkflowPhase \<Rightarrow> bool" where
  "Completed WorkflowSucceeded = True"
| "Completed WorkflowFailed = True"
| "Completed WorkflowError = True"
| "Completed _ = False"

definition IsDaemoned :: "NodeStatus \<Rightarrow> bool" where
  "IsDaemoned n = (case Daemoned n of None \<Rightarrow> False | Some d \<Rightarrow> d)"

fun phaseString :: "NodePhase \<Rightarrow> string" where
  "phaseString NodePending = ''Pending''"
| "phaseString NodeRunning = ''Running''"
| "phaseString NodeSucceeded = ''Succeeded''"
| "phaseString NodeSkipped = ''Skipped''"
| "phaseString NodeFailed = ''Failed''"
| "phaseString NodeError = ''Error''"
| "phaseString NodeOmitted = ''Omitted''"

fun wfPhaseString :: "WorkflowPhase \<Rightarrow> string" where
  "wfPhaseString WorkflowUnknown = []"
| "wfPhaseString WorkflowPending = ''Pending''"
| "wfPhaseString WorkflowRunning = ''Running''"
| "wfPhaseString WorkflowSucceeded = ''Succeeded''"
| "wfPhaseString WorkflowFailed = ''Failed''"
| "wfPhaseString WorkflowError = ''Error''"

text \<open>\<^verbatim>\<open>GetNodeByName\<close>: the node stored under the ID of the name, if any.\<close>

definition GetNodeByName :: "wfOperationCtx \<Rightarrow> string \<Rightarrow> NodeStatus option" where
  "GetNodeByName woc nodeName = map_of (nodes woc) (NodeID (wfObj woc) nodeName)"

section \<open>Marking node phases\<close>

text \<open>
  \<^verbatim>\<open>onNodeComplete\<close> records an event (type, reason, message) when node events are enabled.
\<close>

definition onNodeComplete :: "wfOperationCtx \<Rightarrow> NodeStatus \<Rightarrow> wfOperationCtx" where
  "onNodeComplete woc node =
     (if \<not> nodeEventsEnabled (ctrl woc) then woc
      else
        let message = phaseString (Phase node) @ '' node '' @ Name node;
            message = (if Message node \<noteq> [] then message @ '': '' @ Message node else message);
            eventType = (if Phase node = NodeSucceeded then ''Normal'' else ''Warning'')
        in woc\<lparr>events := events woc
              @ [(eventType, ''WorkflowNode'' @ phaseString (Phase node), message)]\<rparr>)"

text \<open>
  \<^verbatim>\<open>markNodePhase\<close> (lines 2053-2085). The optional message is the variadic argument; the
  clock is read once. First what the function does to the node: the phase, the message when
  one is given, and the time of completion of a node that is fulfilled and has none.
\<close>

definition origFulfilled :: "wfOperationCtx \<Rightarrow> string \<Rightarrow> bool" where
  "origFulfilled woc nodeId =
     (case map_of (wfNodes (orig woc)) nodeId of None \<Rightarrow> False | Some n \<Rightarrow> Fulfilled (Phase n))"

definition markedNode :: "int \<Rightarrow> NodeStatus \<Rightarrow> NodePhase \<Rightarrow> string list \<Rightarrow> NodeStatus" where
  "markedNode now node phase message =
     (let node = (if Phase node \<noteq> phase then node\<lparr>Phase := phase\<rparr> else node);
          node = (case message of
                    [] \<Rightarrow> node
                  | m # _ \<Rightarrow> if m \<noteq> Message node then node\<lparr>Message := m\<rparr> else node)
      in if Fulfilled (Phase node) \<and> FinishedAt node = 0 then node\<lparr>FinishedAt := now\<rparr>
         else node)"

text \<open>
  Then what it does to the rest of the context. When the node already has a fulfilled phase
  and another one is asked for, the source logs the error "node is already fulfilled" and
  goes on. Each of the three changes of the node sets the flag \<^verbatim>\<open>updated\<close>, and the
  completion of a node that was not fulfilled in the original workflow is announced.
\<close>

definition noteMarking ::
  "wfOperationCtx \<Rightarrow> NodeStatus \<Rightarrow> NodePhase \<Rightarrow> string list \<Rightarrow> NodeStatus \<Rightarrow> wfOperationCtx" where
  "noteMarking woc node phase message marked =
     (let woc = (if Phase node \<noteq> phase \<and> Fulfilled (Phase node)
                 then woc\<lparr>errorLog := errorLog woc @ [''node is already fulfilled'']\<rparr>
                 else woc);
          woc = (if Phase node \<noteq> phase
                    \<or> (case message of [] \<Rightarrow> False | m # _ \<Rightarrow> m \<noteq> Message node)
                    \<or> (Fulfilled phase \<and> FinishedAt node = 0)
                 then woc\<lparr>updated := True\<rparr> else woc)
      in if \<not> origFulfilled woc (ID marked) \<and> Fulfilled (Phase marked)
         then onNodeComplete woc marked else woc)"

definition markNodePhase ::
  "int \<Rightarrow> wfOperationCtx \<Rightarrow> string \<Rightarrow> NodePhase \<Rightarrow> string list
     \<Rightarrow> panic + (wfOperationCtx \<times> NodeStatus)" where
  "markNodePhase now woc nodeName phase message =
     (case GetNodeByName woc nodeName of
        None \<Rightarrow> Inl (PanicNodeUninitialized nodeName)
      | Some node \<Rightarrow>
          let marked = markedNode now node phase message
          in Inr (setNode (noteMarking woc node phase message marked) (ID marked) marked,
                  marked))"

section \<open>Child edges\<close>

text \<open>The scan of the children list of \<^verbatim>\<open>addChildNode\<close>, which returns at the first match.\<close>

fun childListed :: "string \<Rightarrow> string list \<Rightarrow> bool" where
  "childListed childID [] = False"
| "childListed childID (nodeID # rest) = (if childID = nodeID then True else childListed childID rest)"

text \<open>\<^verbatim>\<open>addChildNode\<close> (lines 2639-2657): parent and child are node names.\<close>

definition addChildNode :: "wfOperationCtx \<Rightarrow> string \<Rightarrow> string \<Rightarrow> panic + wfOperationCtx" where
  "addChildNode woc parent child =
     (let parentID = NodeID (wfObj woc) parent;
          childID = NodeID (wfObj woc) child
      in case map_of (nodes woc) parentID of
           None \<Rightarrow> Inl (PanicParentNotInitialized parent)
         | Some node \<Rightarrow>
             if childListed childID (Children node) then Inr woc
             else Inr ((setNode woc parentID (node\<lparr>Children := Children node @ [childID]\<rparr>))
                         \<lparr>updated := True\<rparr>))"

section \<open>The workflow phase\<close>

text \<open>
  Modelled from the spec: the methods of \<^verbatim>\<open>ShutdownStrategy\<close> are declared with the API types,
  outside the sources at hand. The spec's glossary: \<^verbatim>\<open>Stop\<close> allows the exit handler and stops
  new work, \<^verbatim>\<open>Terminate\<close> runs no exit handler. The argument of \<^verbatim>\<open>ShouldExecute\<close> tells
  whether the pod belongs to the exit handler.
\<close>

fun ShutdownEnabled :: "ShutdownStrategy \<Rightarrow> bool" where
  "ShutdownEnabled ShutdownNone = False"
| "ShutdownEnabled _ = True"


fun shutdownString :: "ShutdownStrategy \<Rightarrow> string" where
  "shutdownString ShutdownNone = []"
| "shutdownString ShutdownStop = ''Stop''"
| "shutdownString ShutdownTerminate = ''Terminate''"

definition LabelKeyPhase :: string where
  "LabelKeyPhase = ''workflows.argoproj.io/phase''"



definition hasDaemonNodes :: "wfOperationCtx \<Rightarrow> bool" where
  "hasDaemonNodes woc = list_ex (\<lambda>(nodeId, node). IsDaemoned node) (nodes woc)"

text \<open>
  \<^verbatim>\<open>deletePDBResource\<close> (lines 3134-3151): nothing to delete without a budget in the spec;
  otherwise the error of the (retried) API call, if any.
\<close>

definition deletePDBResource :: "wfOperationCtx \<Rightarrow> string option" where
  "deletePDBResource woc = (if \<not> specHasPDB woc then None else deletePDBError (ctrl woc))"

definition phaseEvents :: "WorkflowPhase \<Rightarrow> string \<Rightarrow> (string \<times> string \<times> string) list" where
  "phaseEvents phase message =
     (case phase of
        WorkflowRunning \<Rightarrow> [(''Normal'', ''WorkflowRunning'', ''Workflow Running'')]
      | WorkflowSucceeded \<Rightarrow> [(''Normal'', ''WorkflowSucceeded'', ''Workflow completed'')]
      | WorkflowFailed \<Rightarrow> [(''Warning'', ''WorkflowFailed'', message)]
      | WorkflowError \<Rightarrow> [(''Warning'', ''WorkflowFailed'', message)]
      | _ \<Rightarrow> [])"

text \<open>
  \<^verbatim>\<open>markWorkflowPhase\<close> (lines 1821-1898), block by block. First the change of phase
  (lines 1825-1846), which sets the label and records an event.
\<close>

definition setWorkflowPhase :: "wfOperationCtx \<Rightarrow> WorkflowPhase \<Rightarrow> string \<Rightarrow> wfOperationCtx" where
  "setWorkflowPhase woc phase message =
     (if wfPhase (wfObj woc) \<noteq> phase
      then woc\<lparr>updated := True,
                wfObj := (wfObj woc)\<lparr>wfPhase := phase,
                        wfLabels := (wfLabels (wfObj woc))(LabelKeyPhase \<mapsto> wfPhaseString phase)\<rparr>,
                events := events woc @ phaseEvents phase message\<rparr>
      else woc)"

text \<open>The start time and the message (lines 1847-1856).\<close>

definition setWorkflowStartAndMessage :: "int \<Rightarrow> wfOperationCtx \<Rightarrow> string \<Rightarrow> wfOperationCtx" where
  "setWorkflowStartAndMessage now woc message =
     (let woc = (if wfStartedAt (wfObj woc) = 0
                 then woc\<lparr>updated := True,
                           wfObj := (wfObj woc)\<lparr>wfStartedAt := now,
                                   wfEstimatedDuration := estimateWorkflowDuration (ctrl woc)\<rparr>\<rparr>
                 else woc)
      in if wfMessage (wfObj woc) \<noteq> message
         then woc\<lparr>updated := True, wfObj := (wfObj woc)\<lparr>wfMessage := message\<rparr>\<rparr>
         else woc)"

text \<open>A running entry node becomes an Error node when the workflow errors (lines 1858-1866).\<close>

definition failRunningEntryNode :: "wfOperationCtx \<Rightarrow> WorkflowPhase \<Rightarrow> wfOperationCtx" where
  "failRunningEntryNode woc phase =
     (if phase = WorkflowError
      then (case map_of (nodes woc) (wfName (wfObj woc)) of
              None \<Rightarrow> woc
            | Some entryNode \<Rightarrow>
                if Phase entryNode = NodeRunning
                then (setNode woc (wfName (wfObj woc))
                        (entryNode\<lparr>Phase := NodeError, Message := ''Workflow operation error''\<rparr>))
                     \<lparr>updated := True\<rparr>
                else woc)
      else woc)"













section \<open>Re-applying an update after a conflict\<close>

text \<open>
  The collaborators of \<^verbatim>\<open>reapplyUpdate\<close>: the workflow client answers the k-th \<^verbatim>\<open>Get\<close> and
  the k-th \<^verbatim>\<open>Update\<close> of the loop (\<open>Inl\<close> is the error), the hydrator loads and unloads
  the nodes, and the JSON merge patch is a string. \<open>CreateMergePatch\<close> stands for the two
  calls of \<^verbatim>\<open>json.Marshal\<close> and \<^verbatim>\<open>jsonpatch.CreateMergePatch\<close>, \<open>ApplyMergePatch\<close> for
  \<^verbatim>\<open>json.Marshal\<close>, \<^verbatim>\<open>jsonpatch.MergePatch\<close> and \<^verbatim>\<open>json.Unmarshal\<close>.
\<close>

record persistence =
  getWorkflow :: "nat \<Rightarrow> string + Workflow"
  updateWorkflow :: "nat \<Rightarrow> Workflow \<Rightarrow> string + Workflow"
  Hydrate :: "Workflow \<Rightarrow> string + Workflow"
  Dehydrate :: "Workflow \<Rightarrow> string + Workflow"
  HydrateWithNodes :: "Workflow \<Rightarrow> (string \<times> NodeStatus) list \<Rightarrow> Workflow"
  CreateMergePatch :: "Workflow \<Rightarrow> Workflow \<Rightarrow> string + string"
  ApplyMergePatch :: "Workflow \<Rightarrow> string \<Rightarrow> string + Workflow"

text \<open>
  The scan of lines 665-670: the ID of a node of the update whose counterpart in the fetched
  workflow exists, is fulfilled and has another phase.
\<close>

fun completedNodeChanged ::
  "(string \<times> NodeStatus) list \<Rightarrow> (string \<times> NodeStatus) list \<Rightarrow> string option" where
  "completedNodeChanged [] currNodes = None"
| "completedNodeChanged ((nodeId, node) # rest) currNodes =
     (case map_of currNodes nodeId of
        None \<Rightarrow> completedNodeChanged rest currNodes
      | Some currNode \<Rightarrow>
          if Fulfilled (Phase currNode) \<and> Phase node \<noteq> Phase currNode then Some nodeId
          else completedNodeChanged rest currNodes)"

text \<open>
  The loop of \<^verbatim>\<open>reapplyUpdate\<close> (lines 648-699). It returns the result, the number of the
  attempt in which it returned, and the number of calls of \<^verbatim>\<open>Update\<close> it made.
\<close>

function reapplyLoop ::
  "persistence \<Rightarrow> Workflow \<Rightarrow> string \<Rightarrow> (string \<times> NodeStatus) list \<Rightarrow> nat \<Rightarrow> nat
     \<Rightarrow> (string + Workflow) \<times> nat \<times> nat" where
  "reapplyLoop api wocWf patchBytes ns attempt updates =
     (case getWorkflow api attempt of
        Inl err \<Rightarrow> (Inl err, attempt, updates)
      | Inr currWf \<Rightarrow>
          if Completed (wfPhase currWf)
          then (Inl ''must never update completed workflows'', attempt, updates)
          else
            (case Hydrate api currWf of
               Inl err \<Rightarrow> (Inl err, attempt, updates)
             | Inr currWf \<Rightarrow>
                 (case completedNodeChanged (wfNodes wocWf) (wfNodes currWf) of
                    Some nodeId \<Rightarrow>
                      (Inl (''must never update completed node '' @ nodeId), attempt, updates)
                  | None \<Rightarrow>
                      (case ApplyMergePatch api currWf patchBytes of
                         Inl err \<Rightarrow> (Inl err, attempt, updates)
                       | Inr newWf \<Rightarrow>
                           (case Dehydrate api newWf of
                              Inl err \<Rightarrow> (Inl err, attempt, updates)
                            | Inr newWf \<Rightarrow>
                                (case updateWorkflow api attempt newWf of
                                   Inr w \<Rightarrow> (Inr (HydrateWithNodes api w ns), attempt, Suc updates)
                                 | Inl err \<Rightarrow>
                                     if Suc attempt > 5 then (Inl err, attempt, Suc updates)
                                     else reapplyLoop api wocWf patchBytes ns
                                            (Suc attempt) (Suc updates)))))))"
  by pat_completeness auto
termination
  by (relation "measure (\<lambda>(api, wocWf, patchBytes, ns, attempt, updates). 6 - attempt)") auto

declare reapplyLoop.simps [simp del]

text \<open>
  \<^verbatim>\<open>reapplyUpdate\<close> (lines 621-700). The hydration of \<^verbatim>\<open>woc.orig\<close> and \<^verbatim>\<open>woc.wf\<close> changes
  these objects in place; only the values used by the rest of the function are kept here.
\<close>

definition reapplyUpdate ::
  "persistence \<Rightarrow> wfOperationCtx \<Rightarrow> (string \<times> NodeStatus) list
     \<Rightarrow> panic + ((string + Workflow) \<times> nat \<times> nat)" where
  "reapplyUpdate api woc ns =
     (if wfResourceVersion (orig woc) \<noteq> wfResourceVersion (wfObj woc)
      then Inl PanicMismatchedResourceVersions
      else
        (case Hydrate api (orig woc) of
           Inl err \<Rightarrow> Inr (Inl err, 0, 0)
         | Inr origWf \<Rightarrow>
             let wocWf = HydrateWithNodes api (wfObj woc) ns
             in (case CreateMergePatch api origWf wocWf of
                   Inl err \<Rightarrow> Inr (Inl err, 0, 0)
                 | Inr patchBytes \<Rightarrow> Inr (reapplyLoop api wocWf patchBytes ns 1 0))))"

section \<open>Retries\<close>

text \<open>
  Library functions that \<^verbatim>\<open>processNodeRetries\<close> calls and whose results it only uses:
  \<^verbatim>\<open>strconv.Atoi\<close>, \<^verbatim>\<open>time.ParseDuration\<close> (nanoseconds), the conversion
  \<^verbatim>\<open>time.Duration(math.Pow(float64(f), float64(k)))\<close> of a floating-point power to a
  64-bit duration, \<^verbatim>\<open>humanize.Duration\<close>, the printing of a time, the classification of
  transient errors, and the method \<^verbatim>\<open>CanRetry\<close> of a node status.
\<close>

record library =
  Atoi :: "string \<Rightarrow> int option"
  ParseDuration :: "string \<Rightarrow> int option"
  PowDuration :: "int \<Rightarrow> int \<Rightarrow> int"
  HumanizeDuration :: "int \<Rightarrow> string"
  FormatTime :: "int \<Rightarrow> string"
  IsTransientErr :: "string \<Rightarrow> bool"
  CanRetry :: "NodeStatus \<Rightarrow> bool"

datatype RetryPolicy =
  RetryPolicyAlways | RetryPolicyOnFailure | RetryPolicyOnError | RetryPolicyOnTransientError
  | RetryPolicyEmpty | RetryPolicyOther string

text \<open>
  The fields \<open>Factor\<close> and \<open>Limit\<close> hold a number or a string; the operator reads them
  with \<^verbatim>\<open>intstr.Int32\<close>. \<open>Factor\<close> is the result of that call (\<open>Inl\<close> the error,
  \<open>Inr None\<close> for an absent field). \<open>Limit\<close> is \<open>None\<close> for an absent field, else the
  result of the call.
\<close>

record Backoff =
  Duration :: string
  Factor :: "string + int option"
  MaxDuration :: string

record RetryStrategy =
  Limit :: "(string + int) option"
  Policy :: RetryPolicy
  RetryBackoff :: "Backoff option"

text \<open>Two's complement values of 64 and 32 bits, as integers.\<close>

definition wrap64 :: "int \<Rightarrow> int" where
  "wrap64 x = (x + 2 ^ 63) mod 2 ^ 64 - 2 ^ 63"

definition toInt32 :: "int \<Rightarrow> int" where
  "toInt32 x = (x + 2 ^ 31) mod 2 ^ 32 - 2 ^ 31"

text \<open>\<^verbatim>\<open>parseStringToDuration\<close> (lines 2779-2790): a bare number counts seconds.\<close>

definition parseStringToDuration :: "library \<Rightarrow> string \<Rightarrow> string + int" where
  "parseStringToDuration lib durationString =
     (case Atoi lib durationString of
        Some val \<Rightarrow> Inr (wrap64 (val * 1000000000))
      | None \<Rightarrow>
          (case ParseDuration lib durationString of
             Some duration \<Rightarrow> Inr duration
           | None \<Rightarrow> Inl (''unable to parse '' @ durationString @ '' as a duration'')))"

text \<open>
  \<^verbatim>\<open>getChildNodeIndex\<close> (lines 1459-1479): the child at an index, counted from the end when
  the index is negative; no child when there are no children.
\<close>

definition getChildNodeIndex ::
  "NodeStatus \<Rightarrow> (string \<times> NodeStatus) list \<Rightarrow> int \<Rightarrow> panic + NodeStatus option" where
  "getChildNodeIndex node ns index =
     (if length (Children node) \<le> 0 then Inr None
      else
        let nodeIndex = (if index < 0 then int (length (Children node)) + index else index)
        in if index < 0 \<and> nodeIndex < 0 then Inl PanicChildIndexOutOfBounds
           else if nodeIndex < 0 \<or> int (length (Children node)) \<le> nodeIndex
           then Inl PanicIndexOutOfRange
           else (case map_of ns (Children node ! nat nodeIndex) of
                   None \<Rightarrow> Inl PanicChildNotFound
                 | Some lastChildNode \<Rightarrow> Inr (Some lastChildNode)))"

text \<open>
  The result of \<^verbatim>\<open>processNodeRetries\<close>: a panic, or the new context, the execution deadline
  of the options, and the returned error or the returned node with the flag that tells the
  caller to continue.
\<close>

type_synonym retryResult = "panic + (wfOperationCtx \<times> int \<times> (string + NodeStatus \<times> bool))"

definition markedResult ::
  "panic + (wfOperationCtx \<times> NodeStatus) \<Rightarrow> int \<Rightarrow> bool \<Rightarrow> retryResult" where
  "markedResult r executionDeadline continue =
     (case r of
        Inl p \<Rightarrow> Inl p
      | Inr (woc, node) \<Rightarrow> Inr (woc, executionDeadline, Inr (node, continue)))"

text \<open>
  The wait before the next retry (lines 772-781): the base duration, multiplied by the
  factor to the power of the number of children minus one when the factor is positive.
\<close>

definition timeToWait :: "library \<Rightarrow> int \<Rightarrow> int option \<Rightarrow> nat \<Rightarrow> int" where
  "timeToWait lib baseDuration factor numChildren =
     (case factor of
        None \<Rightarrow> baseDuration
      | Some f \<Rightarrow>
          if f > 0 then wrap64 (baseDuration * PowDuration lib f (int numChildren - 1))
          else baseDuration)"

text \<open>
  The deadline of the maximal duration of the backoff (lines 747-755); the zero time when
  no maximal duration applies.
\<close>

definition maxDurationDeadlineOf ::
  "library \<Rightarrow> wfOperationCtx \<Rightarrow> NodeStatus \<Rightarrow> Backoff \<Rightarrow> panic + (string + int)" where
  "maxDurationDeadlineOf lib woc node b =
     (if MaxDuration b \<noteq> [] \<and> length (Children node) > 0
      then (case parseStringToDuration lib (MaxDuration b) of
              Inl err \<Rightarrow> Inr (Inl err)
            | Inr maxDuration \<Rightarrow>
                (case getChildNodeIndex node (nodes woc) 0 of
                   Inl p \<Rightarrow> Inl p
                 | Inr None \<Rightarrow> Inl PanicNilPointer
                 | Inr (Some firstChildNode) \<Rightarrow> Inr (Inr (StartedAt firstChildNode + maxDuration))))
      else Inr (Inr 0))"

text \<open>
  The backoff (lines 746-801): \<open>Inl\<close> is the result with which \<^verbatim>\<open>processNodeRetries\<close>
  returns, \<open>Inr\<close> the context, the node and the execution deadline with which it goes on.
\<close>

definition processBackoff ::
  "int \<Rightarrow> library \<Rightarrow> wfOperationCtx \<Rightarrow> NodeStatus \<Rightarrow> NodeStatus \<Rightarrow> Backoff \<Rightarrow> int
     \<Rightarrow> retryResult + (wfOperationCtx \<times> NodeStatus \<times> int)" where
  "processBackoff now lib woc node lastChildNode b executionDeadline =
     (case maxDurationDeadlineOf lib woc node b of
        Inl p \<Rightarrow> Inl (Inl p)
      | Inr (Inl err) \<Rightarrow> Inl (Inr (woc, executionDeadline, Inl err))
      | Inr (Inr maxDurationDeadline) \<Rightarrow>
          if MaxDuration b \<noteq> [] \<and> length (Children node) > 0 \<and> now > maxDurationDeadline
          then Inl (markedResult (markNodePhase now woc (Name node) (Phase lastChildNode)
                              [''Max duration limit exceeded'']) executionDeadline True)
          else if Duration b = []
          then Inl (Inr (woc, executionDeadline,
                         Inl ''no base duration specified for retryStrategy''))
          else
            (case parseStringToDuration lib (Duration b) of
               Inl err \<Rightarrow> Inl (Inr (woc, executionDeadline, Inl err))
             | Inr baseDuration \<Rightarrow>
                 (case Factor b of
                    Inl err \<Rightarrow> Inl (Inr (woc, executionDeadline, Inl err))
                  | Inr factor \<Rightarrow>
                      let wait = timeToWait lib baseDuration factor (length (Children node));
                          waitingDeadline = FinishedAt lastChildNode + wait
                      in if maxDurationDeadline \<noteq> 0 \<and> waitingDeadline > maxDurationDeadline
                         then Inl (markedResult (markNodePhase now woc (Name node) (Phase lastChildNode)
                                             [''Backoff would exceed max duration limit''])
                                     executionDeadline True)
                         else if now < waitingDeadline
                         then Inl (markedResult (markNodePhase now
                                             (woc\<lparr>requeuedAfter := requeuedAfter woc @ [wait]\<rparr>)
                                             (Name node) (Phase node)
                                             [''Backoff for '' @ HumanizeDuration lib wait])
                                     executionDeadline False)
                         else (case markNodePhase now woc (Name node) (Phase node) [[]] of
                                 Inl p \<Rightarrow> Inl (Inl p)
                               | Inr (woc, node) \<Rightarrow> Inr (woc, node, maxDurationDeadline)))))"

text \<open>
  The switch on the retry policy (lines 803-822): whether a failed and whether an errored
  child is retried; \<open>None\<close> for a policy that is not valid.
\<close>

definition retryFlags :: "library \<Rightarrow> RetryPolicy \<Rightarrow> NodeStatus \<Rightarrow> (bool \<times> bool) option" where
  "retryFlags lib policy lastChildNode =
     (case policy of
        RetryPolicyAlways \<Rightarrow> Some (True, True)
      | RetryPolicyOnError \<Rightarrow> Some (False, True)
      | RetryPolicyOnTransientError \<Rightarrow>
          if (Phase lastChildNode = NodeFailed \<or> Phase lastChildNode = NodeError)
             \<and> IsTransientErr lib (Message lastChildNode)
          then Some (True, True) else Some (False, False)
      | RetryPolicyOnFailure \<Rightarrow> Some (True, False)
      | RetryPolicyEmpty \<Rightarrow> Some (True, False)
      | RetryPolicyOther name \<Rightarrow> None)"

fun retryPolicyString :: "RetryPolicy \<Rightarrow> string" where
  "retryPolicyString RetryPolicyAlways = ''Always''"
| "retryPolicyString RetryPolicyOnFailure = ''OnFailure''"
| "retryPolicyString RetryPolicyOnError = ''OnError''"
| "retryPolicyString RetryPolicyOnTransientError = ''OnTransientError''"
| "retryPolicyString RetryPolicyEmpty = []"
| "retryPolicyString (RetryPolicyOther name) = name"

text \<open>The policy, the retryability of the last child and the limit (lines 803-844).\<close>

definition processRetryPolicy ::
  "int \<Rightarrow> library \<Rightarrow> wfOperationCtx \<Rightarrow> NodeStatus \<Rightarrow> NodeStatus \<Rightarrow> RetryStrategy \<Rightarrow> int
     \<Rightarrow> retryResult" where
  "processRetryPolicy now lib woc node lastChildNode retryStrategy executionDeadline =
     (case retryFlags lib (Policy retryStrategy) lastChildNode of
        None \<Rightarrow>
          Inr (woc, executionDeadline,
               Inl (retryPolicyString (Policy retryStrategy) @ '' is not a valid RetryPolicy''))
      | Some (retryOnFailed, retryOnError) \<Rightarrow>
          if (Phase lastChildNode = NodeFailed \<and> \<not> retryOnFailed)
             \<or> (Phase lastChildNode = NodeError \<and> \<not> retryOnError)
          then markedResult (markNodePhase now woc (Name node) (Phase lastChildNode)
                         [Message lastChildNode]) executionDeadline True
          else if \<not> CanRetry lib lastChildNode
          then markedResult (markNodePhase now woc (Name node) (Phase lastChildNode)
                         [Message lastChildNode]) executionDeadline True
          else
            (case Limit retryStrategy of
               Some (Inl err) \<Rightarrow> Inr (woc, executionDeadline, Inl err)
             | Some (Inr limit) \<Rightarrow>
                 if toInt32 (int (length (Children node))) > limit
                 then markedResult (markNodePhase now woc (Name node) (Phase lastChildNode)
                                [''No more retries left'']) executionDeadline True
                 else Inr (woc, executionDeadline, Inr (node, True))
             | None \<Rightarrow> Inr (woc, executionDeadline, Inr (node, True))))"

text \<open>
  \<^verbatim>\<open>processNodeRetries\<close> (lines 713-845). The execution deadline stands for the field of the
  options that the function sets.
\<close>

definition processNodeRetries ::
  "int \<Rightarrow> library \<Rightarrow> wfOperationCtx \<Rightarrow> NodeStatus \<Rightarrow> RetryStrategy \<Rightarrow> int \<Rightarrow> retryResult" where
  "processNodeRetries now lib woc node retryStrategy executionDeadline =
     (if Fulfilled (Phase node) then Inr (woc, executionDeadline, Inr (node, True))
      else
        (case getChildNodeIndex node (nodes woc) (- 1) of
           Inl p \<Rightarrow> Inl p
         | Inr None \<Rightarrow> Inr (woc, executionDeadline, Inr (node, True))
         | Inr (Some lastChildNode) \<Rightarrow>
             if \<not> Fulfilled (Phase lastChildNode)
             then Inr (woc, executionDeadline, Inr (node, True))
             else if \<not> FailedOrError (Phase lastChildNode)
             then
               (let node = node\<lparr>NodeOutputs := NodeOutputs lastChildNode\<rparr>;
                    woc = setNode woc (ID node) node
                in markedResult (markNodePhase now woc (Name node) NodeSucceeded [])
                     executionDeadline True)
             else if ShutdownEnabled (specShutdown woc)
                     \<or> (case workflowDeadline woc of None \<Rightarrow> False | Some d \<Rightarrow> now > d)
             then
               (let message =
                      (if ShutdownEnabled (specShutdown woc)
                       then ''Stopped with strategy '' @ [CHR 0x27]
                              @ shutdownString (specShutdown woc) @ [CHR 0x27]
                       else ''retry exceeded workflow deadline ''
                              @ (case workflowDeadline woc of
                                   None \<Rightarrow> [] | Some d \<Rightarrow> FormatTime lib d))
                in markedResult (markNodePhase now woc (Name node) (Phase lastChildNode) [message])
                     executionDeadline True)
             else
               (case RetryBackoff retryStrategy of
                  None \<Rightarrow>
                    processRetryPolicy now lib woc node lastChildNode retryStrategy
                      executionDeadline
                | Some b \<Rightarrow>
                    (case processBackoff now lib woc node lastChildNode b executionDeadline of
                       Inl result \<Rightarrow> result
                     | Inr (woc, node, executionDeadline) \<Rightarrow>
                         processRetryPolicy now lib woc node lastChildNode retryStrategy
                           executionDeadline))))"

text \<open>The node that \<^verbatim>\<open>processNodeRetries\<close> returns, if it returns one.\<close>

definition returnedNode :: "retryResult \<Rightarrow> NodeStatus option" where
  "returnedNode r =
     (case r of
        Inl p \<Rightarrow> None
      | Inr (woc, executionDeadline, Inl err) \<Rightarrow> None
      | Inr (woc, executionDeadline, Inr (node, continue)) \<Rightarrow> Some node)"



section \<open>Memoization at the start of the execution of a template\<close>

record Memoize =
  MemoizeKey :: string
  MemoizeCacheName :: string
  MaxAge :: string

datatype TemplateType =
  TemplateTypeContainer | TemplateTypeContainerSet | TemplateTypeSteps | TemplateTypeScript
  | TemplateTypeResource | TemplateTypeDAG | TemplateTypeSuspend | TemplateTypeData
  | TemplateTypeUnknown

text \<open>
  The part of a template that the modelled functions read. \<open>TmplNodeType\<close> is the node
  type that \<^verbatim>\<open>wfutil.GetNodeType\<close> gives for the template, \<open>TmplSuppliedOutputs\<close> are the
  output parameters whose value is supplied (they matter for suspend templates only).
\<close>

record Template =
  TmplName :: string
  TmplType :: TemplateType
  TmplNodeType :: NodeType
  TmplInputs :: "(string \<times> string) list"
  TmplSuppliedOutputs :: "(string \<times> string) list"
  TmplMemoize :: "Memoize option"

record Entry =
  EntryNodeID :: string
  EntryOutputs :: "Outputs option"
  CreationTimestamp :: int

text \<open>
  Modelled from the spec: the methods of a cache entry (package \<^verbatim>\<open>controller/cache\<close>) are not
  part of the sources at hand. The spec: the cache gives an entry or none; a hit means that
  an entry exists; with a maximal age, the outputs count only when the age of the entry is
  at most the maximal age.
\<close>

definition EntryHit :: "Entry option \<Rightarrow> bool" where
  "EntryHit entry = (entry \<noteq> None)"

definition GetOutputs :: "Entry option \<Rightarrow> Outputs option" where
  "GetOutputs entry = (case entry of None \<Rightarrow> None | Some e \<Rightarrow> EntryOutputs e)"

definition GetOutputsWithMaxAge :: "int \<Rightarrow> Entry option \<Rightarrow> int \<Rightarrow> Outputs option \<times> bool" where
  "GetOutputsWithMaxAge now entry maxAge =
     (case entry of
        None \<Rightarrow> (None, False)
      | Some e \<Rightarrow> if now - CreationTimestamp e \<le> maxAge then (EntryOutputs e, True)
                   else (None, False))"

text \<open>\<^verbatim>\<open>strings.TrimPrefix\<close>.\<close>

definition TrimPrefix :: "string \<Rightarrow> string \<Rightarrow> string" where
  "TrimPrefix s prefix = (if take (length prefix) s = prefix then drop (length prefix) s else s)"

text \<open>
  The regular expression \<^verbatim>\<open>^(\[\d+\])?\.\<close> of \<open>stepsOrDagSeparator\<close>: the length of its
  match at the start of a string, if there is one.
\<close>

definition isDigit :: "char \<Rightarrow> bool" where
  "isDigit c = (c \<in> set ''0123456789'')"

definition separatorLength :: "string \<Rightarrow> nat option" where
  "separatorLength s =
     (case s of
        [] \<Rightarrow> None
      | c # rest \<Rightarrow>
          if c = CHR ''.'' then Some 1
          else if c = CHR ''[''
          then (let digits = takeWhile isDigit rest
                in if digits \<noteq> [] \<and> take 2 (dropWhile isDigit rest) = ''].''
                   then Some (length digits + 3) else None)
          else None)"

definition displayNameOf :: "string \<Rightarrow> string \<Rightarrow> string" where
  "displayNameOf nodeName boundaryName =
     (let displayName = TrimPrefix nodeName boundaryName
      in case separatorLength displayName of
           None \<Rightarrow> displayName
         | Some n \<Rightarrow> drop n displayName)"

text \<open>
  \<^verbatim>\<open>initializeNode\<close> (lines 2008-2051); the template holder is represented by the name of its
  template.
\<close>

definition initializeNode ::
  "int \<Rightarrow> wfOperationCtx \<Rightarrow> string \<Rightarrow> NodeType \<Rightarrow> string \<Rightarrow> string \<Rightarrow> string \<Rightarrow> NodePhase
     \<Rightarrow> string list \<Rightarrow> panic + (wfOperationCtx \<times> NodeStatus)" where
  "initializeNode now woc nodeName nodeType templateScope orgTmplName boundaryID phase messages =
     (let nodeID = NodeID (wfObj woc) nodeName
      in case map_of (nodes woc) nodeID of
           Some existing \<Rightarrow> Inl (PanicNodeAlreadyInitialized nodeName)
         | None \<Rightarrow>
             let node = \<lparr>ID = nodeID, Name = nodeName,
                         DisplayName =
                           (case map_of (nodes woc) boundaryID of
                              Some boundaryNode \<Rightarrow> displayNameOf nodeName (Name boundaryNode)
                            | None \<Rightarrow> nodeName),
                         Type = nodeType, TemplateName = orgTmplName,
                         TemplateScope = templateScope, Phase = phase, BoundaryID = boundaryID,
                         Message = [], StartedAt = now, FinishedAt = 0, PodIP = [],
                         Daemoned = None, Inputs = None, NodeOutputs = None, Children = [],
                         HostNodeName = [], NodeMemoizationStatus = None,
                         SynchronizationWaiting = None,
                         EstimatedDuration = estimateNodeDuration (ctrl woc) nodeName,
                         ResourcesDuration = []\<rparr>;
                 node = (if Fulfilled (Phase node) \<and> FinishedAt node = 0
                         then node\<lparr>FinishedAt := StartedAt node\<rparr> else node);
                 node = (case messages of [] \<Rightarrow> node | m # _ \<Rightarrow> node\<lparr>Message := m\<rparr>)
             in Inr ((setNode woc nodeID node)\<lparr>updated := True\<rparr>, node))"

text \<open>\<^verbatim>\<open>addRawOutputFields\<close> (lines 2764-2777).\<close>

definition addRawOutputFields :: "NodeStatus \<Rightarrow> Template \<Rightarrow> panic + NodeStatus" where
  "addRawOutputFields node tmpl =
     (if TmplType tmpl \<noteq> TemplateTypeSuspend \<or> Type node \<noteq> NodeTypeSuspend
      then Inl PanicNotSuspend
      else if TmplSuppliedOutputs tmpl = [] then Inr node
      else Inr (node\<lparr>NodeOutputs := Some
             (case NodeOutputs node of
                None \<Rightarrow> \<lparr>Parameters = TmplSuppliedOutputs tmpl, Result = None, ExitCode = None\<rparr>
              | Some out \<Rightarrow> out\<lparr>Parameters := Parameters out @ TmplSuppliedOutputs tmpl\<rparr>)\<rparr>))"

text \<open>\<^verbatim>\<open>initializeExecutableNode\<close> (lines 1954-1976).\<close>

definition initializeExecutableNode ::
  "int \<Rightarrow> wfOperationCtx \<Rightarrow> string \<Rightarrow> NodeType \<Rightarrow> string \<Rightarrow> Template \<Rightarrow> string \<Rightarrow> string
     \<Rightarrow> NodePhase \<Rightarrow> string list \<Rightarrow> panic + (wfOperationCtx \<times> NodeStatus)" where
  "initializeExecutableNode now woc nodeName nodeType templateScope executeTmpl orgTmplName
       boundaryID phase messages =
     (case initializeNode now woc nodeName nodeType templateScope orgTmplName boundaryID phase []
      of Inl p \<Rightarrow> Inl p
       | Inr (woc, node) \<Rightarrow>
           let node = (if TmplInputs executeTmpl \<noteq> []
                       then node\<lparr>Inputs := Some (TmplInputs executeTmpl)\<rparr> else node)
           in (case (if nodeType = NodeTypeSuspend then addRawOutputFields node executeTmpl
                     else Inr node)
               of Inl p \<Rightarrow> Inl p
                | Inr node \<Rightarrow>
                    let node = (case messages of [] \<Rightarrow> node | m # _ \<Rightarrow> node\<lparr>Message := m\<rparr>)
                    in Inr ((setNode woc (ID node) node)\<lparr>updated := True\<rparr>, node)))"

text \<open>
  \<^verbatim>\<open>initializeCacheNode\<close> (lines 1986-1997): the memoization status is set on the node that
  is returned, after the node was stored.
\<close>

definition initializeCacheNode ::
  "int \<Rightarrow> wfOperationCtx \<Rightarrow> string \<Rightarrow> Template \<Rightarrow> string \<Rightarrow> string \<Rightarrow> string
     \<Rightarrow> MemoizationStatus \<Rightarrow> string list \<Rightarrow> panic + (wfOperationCtx \<times> NodeStatus)" where
  "initializeCacheNode now woc nodeName resolvedTmpl templateScope orgTmplName boundaryID memStat
       messages =
     (if TmplMemoize resolvedTmpl = None then Inl PanicNotMemoized
      else
        (case initializeExecutableNode now woc nodeName (TmplNodeType resolvedTmpl) templateScope
                resolvedTmpl orgTmplName boundaryID NodePending messages
         of Inl p \<Rightarrow> Inl p
          | Inr (woc, node) \<Rightarrow> Inr (woc, node\<lparr>NodeMemoizationStatus := Some memStat\<rparr>)))"

text \<open>\<^verbatim>\<open>initializeCacheHitNode\<close> (lines 1999-2006).\<close>

definition initializeCacheHitNode ::
  "int \<Rightarrow> wfOperationCtx \<Rightarrow> string \<Rightarrow> Template \<Rightarrow> string \<Rightarrow> string \<Rightarrow> string
     \<Rightarrow> Outputs option \<Rightarrow> MemoizationStatus \<Rightarrow> string list
     \<Rightarrow> panic + (wfOperationCtx \<times> NodeStatus)" where
  "initializeCacheHitNode now woc nodeName resolvedTmpl templateScope orgTmplName boundaryID
       outputs memStat messages =
     (case initializeCacheNode now woc nodeName resolvedTmpl templateScope orgTmplName boundaryID
             memStat messages
      of Inl p \<Rightarrow> Inl p
       | Inr (woc, node) \<Rightarrow>
           Inr (woc, node\<lparr>Phase := NodeSucceeded, NodeOutputs := outputs, FinishedAt := now\<rparr>))"

text \<open>\<^verbatim>\<open>markNodeError\<close> and \<^verbatim>\<open>initializeNodeOrMarkError\<close> (lines 1978-1984, 2111-2115).\<close>

definition markNodeError ::
  "int \<Rightarrow> wfOperationCtx \<Rightarrow> string \<Rightarrow> string \<Rightarrow> panic + (wfOperationCtx \<times> NodeStatus)" where
  "markNodeError now woc nodeName err = markNodePhase now woc nodeName NodeError [err]"

definition initializeNodeOrMarkError ::
  "int \<Rightarrow> wfOperationCtx \<Rightarrow> NodeStatus option \<Rightarrow> string \<Rightarrow> string \<Rightarrow> string \<Rightarrow> string \<Rightarrow> string
     \<Rightarrow> panic + (wfOperationCtx \<times> NodeStatus)" where
  "initializeNodeOrMarkError now woc node nodeName templateScope orgTmplName boundaryID err =
     (case node of
        Some n \<Rightarrow> markNodeError now woc nodeName err
      | None \<Rightarrow> initializeNode now woc nodeName NodeTypeSkipped templateScope orgTmplName
                  boundaryID NodeError [err])"

text \<open>
  The start of \<^verbatim>\<open>executeTemplate\<close> (lines 1495-1600), up to the point where a node that is
  already fulfilled is returned. The function either returns a node and an error, or
  proceeds (to the deadline check, the parallelism check and, in the end, the creation of a
  pod) with the node and the processed template.
\<close>

datatype execStep =
  Returned "NodeStatus option" "string option"
  | Proceeds "NodeStatus option" Template

definition returnError ::
  "panic + (wfOperationCtx \<times> NodeStatus) \<Rightarrow> string \<Rightarrow> panic + (wfOperationCtx \<times> execStep)" where
  "returnError r err =
     (case r of
        Inl p \<Rightarrow> Inl p
      | Inr (woc, node) \<Rightarrow> Inr (woc, Returned (Some node) (Some err)))"

text \<open>
  The memoization check (lines 1530-1574), for a node that does not exist yet and a template
  with a memoization key: \<open>Inl\<close> is the result with which \<^verbatim>\<open>executeTemplate\<close> returns,
  \<open>Inr\<close> the context and the node that was initialised. The cache factory gives, for the
  name of a cache, the function that loads the entry of a key, if the cache exists.
\<close>

definition memoizationCheck ::
  "int \<Rightarrow> library \<Rightarrow> (string \<Rightarrow> (string \<Rightarrow> string + Entry option) option) \<Rightarrow> wfOperationCtx
     \<Rightarrow> string \<Rightarrow> Template \<Rightarrow> Memoize \<Rightarrow> string \<Rightarrow> string \<Rightarrow> string
     \<Rightarrow> (panic + (wfOperationCtx \<times> execStep)) + (wfOperationCtx \<times> NodeStatus)" where
  "memoizationCheck now lib cacheFactory woc nodeName processedTmpl memoize templateScope
       orgTmplName boundaryID =
     (case cacheFactory (MemoizeCacheName memoize) of
        None \<Rightarrow>
          Inl (returnError
                 (initializeNodeOrMarkError now woc None nodeName templateScope orgTmplName
                    boundaryID ''cache could not be found or created'')
                 ''cache could not be found or created'')
      | Some load \<Rightarrow>
          (case load (MemoizeKey memoize) of
             Inl err \<Rightarrow>
               Inl (returnError
                      (initializeNodeOrMarkError now woc None nodeName templateScope orgTmplName
                         boundaryID err) err)
           | Inr entry \<Rightarrow>
               (case (if MaxAge memoize \<noteq> []
                      then (case ParseDuration lib (MaxAge memoize) of
                              None \<Rightarrow> None
                            | Some maxAge \<Rightarrow>
                                let (maxAgeOutputs, ok) = GetOutputsWithMaxAge now entry maxAge
                                in Some (if \<not> ok then False else EntryHit entry, maxAgeOutputs))
                      else Some (EntryHit entry, GetOutputs entry))
                of None \<Rightarrow>
                     Inl (returnError
                            (initializeNodeOrMarkError now woc None nodeName templateScope
                               orgTmplName boundaryID (''invalid maxAge: '' @ MaxAge memoize))
                            (''invalid maxAge: '' @ MaxAge memoize))
                 | Some (hit, outputs) \<Rightarrow>
                     let memoizationStatus =
                           \<lparr>Hit = hit, Key = MemoizeKey memoize,
                            CacheName = MemoizeCacheName memoize\<rparr>
                     in (case (if hit
                               then initializeCacheHitNode now woc nodeName processedTmpl
                                      templateScope orgTmplName boundaryID outputs
                                      memoizationStatus []
                               else initializeCacheNode now woc nodeName processedTmpl
                                      templateScope orgTmplName boundaryID memoizationStatus [])
                         of Inl p \<Rightarrow> Inl (Inl p)
                          | Inr (woc, node) \<Rightarrow>
                              Inr ((setNode woc (ID node) node)\<lparr>updated := True\<rparr>, node)))))"

text \<open>
  The arguments \<open>resolved\<close> and \<open>processed\<close> are the results of the resolution of the
  template (the error, or whether a template was stored) and of the merge of the defaults
  and the processing of the arguments (the error, or the processed template). The emission
  of metrics is not modelled.
\<close>

definition executeTemplate_start ::
  "int \<Rightarrow> library \<Rightarrow> (string \<Rightarrow> (string \<Rightarrow> string + Entry option) option) \<Rightarrow> wfOperationCtx
     \<Rightarrow> string \<Rightarrow> string \<Rightarrow> string \<Rightarrow> string \<Rightarrow> string + bool \<Rightarrow> string + Template
     \<Rightarrow> panic + (wfOperationCtx \<times> execStep)" where
  "executeTemplate_start now lib cacheFactory woc nodeName orgTmplName templateScope boundaryID
       resolved processed =
     (let node = GetNodeByName woc nodeName
      in case resolved of
           Inl err \<Rightarrow>
             returnError (initializeNodeOrMarkError now woc node nodeName templateScope
                            orgTmplName boundaryID err) err
         | Inr templateStored \<Rightarrow>
             let woc = (if templateStored then woc\<lparr>updated := True\<rparr> else woc)
             in (case processed of
                   Inl err \<Rightarrow>
                     returnError (initializeNodeOrMarkError now woc node nodeName templateScope
                                    orgTmplName boundaryID err) err
                 | Inr processedTmpl \<Rightarrow>
                     (case (case (node, TmplMemoize processedTmpl) of
                              (None, Some memoize) \<Rightarrow>
                                (case memoizationCheck now lib cacheFactory woc nodeName
                                        processedTmpl memoize templateScope orgTmplName boundaryID
                                 of Inl result \<Rightarrow> Inl result
                                  | Inr (woc, n) \<Rightarrow> Inr (woc, Some n))
                            | _ \<Rightarrow> Inr (woc, node))
                      of Inl result \<Rightarrow> result
                       | Inr (woc, None) \<Rightarrow> Inr (woc, Proceeds None processedTmpl)
                       | Inr (woc, Some node) \<Rightarrow>
                           if Fulfilled (Phase node)
                           then Inr (woc\<lparr>syncReleased := syncReleased woc @ [ID node]\<rparr>,
                                     Returned (Some node) None)
                           else if StartedAt node = 0
                           then (let node = node\<lparr>StartedAt := now,
                                              EstimatedDuration :=
                                                estimateNodeDuration (ctrl woc) (Name node)\<rparr>
                                 in Inr ((setNode woc (ID node) node)\<lparr>updated := True\<rparr>,
                                         Proceeds (Some node) processedTmpl))
                           else Inr (woc, Proceeds (Some node) processedTmpl))))"

section \<open>Pods\<close>

text \<open>
  The part of a pod that the operator reads. A container state holds at most one of its
  three members. The annotations are given decoded: \<open>PodTemplateAnnotation\<close> is absent,
  unreadable (\<open>Inl\<close>), or tells whether the template is a daemon; the outputs annotation,
  when present, unmarshals into the outputs of the node, or fails.
\<close>

record ContainerStateWaiting =
  WaitingReason :: string
  WaitingMessage :: string

record ContainerStateTerminated =
  TermExitCode :: int
  TermReason :: string
  TermMessage :: string
  TermFinishedAt :: int

record ContainerState =
  Waiting :: "ContainerStateWaiting option"
  Running :: "int option"
  Terminated :: "ContainerStateTerminated option"

record ContainerStatus =
  CtrName :: string
  CtrReady :: bool
  CtrState :: ContainerState

datatype PodPhase = PodPending | PodRunning | PodSucceeded | PodFailed | PodUnknown

record Pod =
  PodName :: string
  PodSpecNodeName :: string
  PodTemplateAnnotation :: "(string + bool) option"
  PodOutputsAnnotation :: "(Outputs \<Rightarrow> string + Outputs) option"
  PodStatusPhase :: PodPhase
  PodStatusMessage :: string
  PodStatusIP :: string
  InitContainerStatuses :: "ContainerStatus list"
  ContainerStatuses :: "ContainerStatus list"
  PodConditions :: "(string \<times> string) list"
  PodResourcesDuration :: "(string \<times> int) list"

fun podPhaseString :: "PodPhase \<Rightarrow> string" where
  "podPhaseString PodPending = ''Pending''"
| "podPhaseString PodRunning = ''Running''"
| "podPhaseString PodSucceeded = ''Succeeded''"
| "podPhaseString PodFailed = ''Failed''"
| "podPhaseString PodUnknown = ''Unknown''"

text \<open>Decimal printing of an integer, as the verb \<^verbatim>\<open>%d\<close> does.\<close>

fun showNat :: "nat \<Rightarrow> string" where
  "showNat n =
     (if n < 10 then [''0123456789'' ! n]
      else showNat (n div 10) @ [''0123456789'' ! (n mod 10)])"

declare showNat.simps [simp del]

definition showInt :: "int \<Rightarrow> string" where
  "showInt i = (if i < 0 then CHR ''-'' # showNat (nat (- i)) else showNat (nat i))"

section \<open>The retry node in the execution of a template\<close>

text \<open>
  The part of \<^verbatim>\<open>executeTemplate\<close> that deals with retries (lines 1649-1713). It either returns
  a node and an error, or proceeds to the execution of the template under a node name and
  with the node of that name, if there is one. The arguments: \<open>node\<close> is the node of
  \<open>nodeName\<close> at this point, \<open>retryStrategy\<close> the result of \<^verbatim>\<open>woc.retryStrategy\<close> for the
  template, \<open>synchronized\<close> tells whether the template has a synchronization, and
  \<open>substituteError\<close> is the error of \<^verbatim>\<open>common.SubstituteParams\<close> for the new child, if any.
  When the processed retry node is fulfilled, the lock is released under the ID of \<open>node\<close>.
  The emission of metrics and the changes that \<^verbatim>\<open>RetryOnDifferentHost\<close> and the substitution
  make to the template are not modelled.
\<close>

datatype retryStep =
  RetryReturned "NodeStatus option" "string option"
  | RetryProceeds string "NodeStatus option"

definition executeTemplate_retry ::
  "int \<Rightarrow> library \<Rightarrow> wfOperationCtx \<Rightarrow> string \<Rightarrow> NodeStatus option \<Rightarrow> Template
     \<Rightarrow> RetryStrategy option \<Rightarrow> bool \<Rightarrow> string option \<Rightarrow> string \<Rightarrow> string \<Rightarrow> string \<Rightarrow> int
     \<Rightarrow> panic + (wfOperationCtx \<times> int \<times> retryStep)" where
  "executeTemplate_retry now lib woc nodeName node processedTmpl retryStrategy synchronized
       substituteError templateScope orgTmplName boundaryID executionDeadline =
     (case retryStrategy of
        None \<Rightarrow> Inr (woc, executionDeadline, RetryProceeds nodeName node)
      | Some rs \<Rightarrow>
          (case (case node of
                   Some n \<Rightarrow> Inr (woc, n)
                 | None \<Rightarrow>
                     initializeExecutableNode now woc nodeName NodeTypeRetry templateScope
                       processedTmpl orgTmplName boundaryID NodeRunning [])
           of Inl p \<Rightarrow> Inl p
            | Inr (woc, retryParentNode) \<Rightarrow>
                (case processNodeRetries now lib woc retryParentNode rs executionDeadline of
                   Inl p \<Rightarrow> Inl p
                 | Inr (woc, executionDeadline, Inl err) \<Rightarrow>
                     (case markNodeError now woc nodeName err of
                        Inl p \<Rightarrow> Inl p
                      | Inr (woc, errorNode) \<Rightarrow>
                          Inr (woc, executionDeadline, RetryReturned (Some errorNode) (Some err)))
                 | Inr (woc, executionDeadline, Inr (processedRetryParentNode, continueExecution)) \<Rightarrow>
                     if \<not> continueExecution
                     then Inr (woc, executionDeadline, RetryReturned (Some retryParentNode) None)
                     else if Fulfilled (Phase processedRetryParentNode)
                     then (if synchronized
                           then (case node of
                                   None \<Rightarrow> Inl PanicNilPointer
                                 | Some n \<Rightarrow>
                                     Inr (woc\<lparr>syncReleased := syncReleased woc @ [ID n]\<rparr>,
                                          executionDeadline,
                                          RetryReturned (Some processedRetryParentNode) None))
                           else Inr (woc, executionDeadline,
                                     RetryReturned (Some processedRetryParentNode) None))
                     else
                       (case getChildNodeIndex processedRetryParentNode (nodes woc) (- 1) of
                          Inl p \<Rightarrow> Inl p
                        | Inr lastChildNode \<Rightarrow>
                            (case (case lastChildNode of
                                     None \<Rightarrow> None
                                   | Some c \<Rightarrow> if \<not> Fulfilled (Phase c) then Some c else None)
                             of Some running \<Rightarrow>
                                  Inr (woc, executionDeadline,
                                       RetryProceeds (Name running) (Some running))
                              | None \<Rightarrow>
                                  let childName = nodeName @ ''('' @
                                        showNat (length (Children processedRetryParentNode)) @ '')''
                                  in (case addChildNode woc nodeName childName of
                                        Inl p \<Rightarrow> Inl p
                                      | Inr woc \<Rightarrow>
                                          (case substituteError of
                                             None \<Rightarrow>
                                               Inr (woc, executionDeadline,
                                                    RetryProceeds childName None)
                                           | Some err \<Rightarrow>
                                               (case initializeNodeOrMarkError now woc None
                                                       childName templateScope orgTmplName
                                                       boundaryID err
                                                of Inl p \<Rightarrow> Inl p
                                                 | Inr (woc, errorNode) \<Rightarrow>
                                                     Inr (woc, executionDeadline,
                                                          RetryReturned (Some errorNode)
                                                            (Some err))))))))))"

section \<open>The reason of a failed pod\<close>

text \<open>
  The names of the containers that the operator knows (package \<^verbatim>\<open>common\<close>): the spec names
  them init, main and wait.
\<close>

definition InitContainerName :: string where
  "InitContainerName = ''init''"

definition WaitContainerName :: string where
  "WaitContainerName = ''wait''"

definition MainContainerName :: string where
  "MainContainerName = ''main''"

text \<open>
  The order of preference of \<^verbatim>\<open>inferFailedReason\<close> (lines 1279-1290). Whether a name is the
  name of a main container is a question for the template of the pod, which is the argument
  \<open>isMain\<close>.
\<close>

definition containerOrder :: "(string \<Rightarrow> bool) \<Rightarrow> string \<Rightarrow> nat" where
  "containerOrder isMain n =
     (if n = InitContainerName then 0
      else if isMain n then 1
      else if n = WaitContainerName then 2
      else 3)"

definition terminatedMessage :: "ContainerStateTerminated \<Rightarrow> string" where
  "terminatedMessage t =
     (let msg = TermReason t @ '' (exit code '' @ showInt (TermExitCode t) @ '')''
      in if TermMessage t \<noteq> [] then msg @ '': '' @ TermMessage t else msg)"

text \<open>The loop over the sorted containers (lines 1295-1342).\<close>

fun inferFromContainers :: "(string \<Rightarrow> bool) \<Rightarrow> ContainerStatus list \<Rightarrow> NodePhase \<times> string" where
  "inferFromContainers isMain [] = (NodeSucceeded, [])"
| "inferFromContainers isMain (ctr # ctrs) =
     (if Waiting (CtrState ctr) \<noteq> None
      then (NodeError, ''Pod failed before '' @ CtrName ctr @ '' container starts'')
      else
        (case Terminated (CtrState ctr) of
           None \<Rightarrow> inferFromContainers isMain ctrs
         | Some t \<Rightarrow>
             if TermExitCode t = 0 then inferFromContainers isMain ctrs
             else if CtrName ctr = InitContainerName then (NodeError, terminatedMessage t)
             else if isMain (CtrName ctr) then (NodeFailed, terminatedMessage t)
             else if CtrName ctr = WaitContainerName then (NodeError, terminatedMessage t)
             else if TermExitCode t = 137 \<or> TermExitCode t = 143
             then inferFromContainers isMain ctrs
             else (NodeFailed, terminatedMessage t)))"

text \<open>
  \<^verbatim>\<open>inferFailedReason\<close> (lines 1266-1343). \<^verbatim>\<open>sort.Slice\<close> orders the containers by their
  order of preference; it is an insertion sort on fewer than twelve elements, and promises
  no order among containers of the same preference on more. Here it is the stable
  insertion sort.
\<close>

definition inferFailedReason :: "(string \<Rightarrow> bool) \<Rightarrow> Pod \<Rightarrow> NodePhase \<times> string" where
  "inferFailedReason isMain pod =
     (if PodStatusMessage pod \<noteq> [] then (NodeFailed, PodStatusMessage pod)
      else
        let ctrs = InitContainerStatuses pod @ ContainerStatuses pod;
            ctrs = sort_key (\<lambda>c. containerOrder isMain (CtrName c)) ctrs
        in inferFromContainers isMain ctrs)"




section \<open>The assessment of a pod\<close>

text \<open>\<^verbatim>\<open>getPendingReason\<close> (lines 1239-1264); a condition is a reason and a message.\<close>

fun waitingReason :: "ContainerStatus list \<Rightarrow> string option" where
  "waitingReason [] = None"
| "waitingReason (ctrStatus # rest) =
     (case Waiting (CtrState ctrStatus) of
        None \<Rightarrow> waitingReason rest
      | Some w \<Rightarrow>
          if WaitingMessage w \<noteq> [] then Some (WaitingReason w @ '': '' @ WaitingMessage w)
          else Some (WaitingReason w))"

fun unschedulableReason :: "(string \<times> string) list \<Rightarrow> string" where
  "unschedulableReason [] = []"
| "unschedulableReason ((reason, message) # rest) =
     (if reason = ''Unschedulable''
      then (if message \<noteq> [] then reason @ '': '' @ message else reason)
      else unschedulableReason rest)"

definition getPendingReason :: "Pod \<Rightarrow> string" where
  "getPendingReason pod =
     (case waitingReason (ContainerStatuses pod) of
        Some r \<Rightarrow> r
      | None \<Rightarrow> unschedulableReason (PodConditions pod))"

text \<open>\<^verbatim>\<open>getExitCode\<close> (lines 1193-1200).\<close>

fun getExitCode :: "ContainerStatus list \<Rightarrow> int option" where
  "getExitCode [] = None"
| "getExitCode (c # rest) =
     (case Terminated (CtrState c) of
        Some t \<Rightarrow> if CtrName c = MainContainerName then Some (TermExitCode t)
                   else getExitCode rest
      | None \<Rightarrow> getExitCode rest)"

text \<open>\<^verbatim>\<open>getLatestFinishedAt\<close> (lines 1222-1237).\<close>

fun latestFinishedAt :: "int \<Rightarrow> ContainerStatus list \<Rightarrow> int" where
  "latestFinishedAt latest [] = latest"
| "latestFinishedAt latest (ctr # rest) =
     (case Terminated (CtrState ctr) of
        Some t \<Rightarrow> latestFinishedAt (if TermFinishedAt t > latest then TermFinishedAt t
                                     else latest) rest
      | None \<Rightarrow> latestFinishedAt latest rest)"

definition getLatestFinishedAt :: "Pod \<Rightarrow> int" where
  "getLatestFinishedAt pod =
     latestFinishedAt (latestFinishedAt 0 (InitContainerStatuses pod)) (ContainerStatuses pod)"

text \<open>
  \<^verbatim>\<open>cleanUpPod\<close> (lines 1202-1216): once the wait container has terminated, the containers
  that still run are to be terminated.
\<close>

definition cleanUpPod :: "wfOperationCtx \<Rightarrow> Pod \<Rightarrow> wfOperationCtx" where
  "cleanUpPod woc pod =
     (if list_ex (\<lambda>c. CtrName c = WaitContainerName \<and> Terminated (CtrState c) = None)
           (ContainerStatuses pod)
      then woc
      else if list_ex (\<lambda>c. Terminated (CtrState c) = None) (ContainerStatuses pod)
      then woc\<lparr>podCleanupQueue := podCleanupQueue woc @ [(PodName pod, ''terminateContainers'')]\<rparr>
      else woc)"

text \<open>
  The switch on the phase of the pod (lines 1049-1098): nothing when the assessment returns
  without a new state, else the context, the new phase, the new daemon status and the
  message.
\<close>

definition assessPodPhase ::
  "(string \<Rightarrow> bool) \<Rightarrow> wfOperationCtx \<Rightarrow> Pod \<Rightarrow> NodeStatus
     \<Rightarrow> (wfOperationCtx \<times> NodePhase \<times> bool option \<times> string) option" where
  "assessPodPhase isMain woc pod node =
     (case PodStatusPhase pod of
        PodPending \<Rightarrow> Some (woc, NodePending, Some False, getPendingReason pod)
      | PodSucceeded \<Rightarrow> Some (woc, NodeSucceeded, Some False, [])
      | PodFailed \<Rightarrow>
          if IsDaemoned node then Some (woc, NodeSucceeded, Some False, [])
          else (let (newPhase, message) = inferFailedReason isMain pod
                in Some (woc, newPhase, Some False, message))
      | PodRunning \<Rightarrow>
          (case PodTemplateAnnotation pod of
             None \<Rightarrow> None
           | Some (Inl err) \<Rightarrow> None
           | Some (Inr daemon) \<Rightarrow>
               if daemon
               then (if list_ex (\<lambda>ctrStatus. \<not> CtrReady ctrStatus) (ContainerStatuses pod)
                     then None
                     else Some (cleanUpPod woc pod, NodeRunning, Some True, []))
               else Some (cleanUpPod woc pod, NodeRunning, None, []))
      | PodUnknown \<Rightarrow>
          Some (woc, NodeError,
                None,
                ''Unexpected pod phase for '' @ PodName pod @ '': ''
                  @ podPhaseString (PodStatusPhase pod)))"

text \<open>
  The nodes of the containers (lines 1100-1124): the node of a container has the name of
  the node of the pod, a dot, and the name of the container.
\<close>

definition markContainerNode ::
  "int \<Rightarrow> wfOperationCtx \<Rightarrow> string \<Rightarrow> ContainerStatus
     \<Rightarrow> panic + wfOperationCtx" where
  "markContainerNode now woc ctrNodeName c =
     (if Waiting (CtrState c) \<noteq> None
      then map_sum id fst (markNodePhase now woc ctrNodeName NodePending [])
      else if Running (CtrState c) \<noteq> None
      then map_sum id fst (markNodePhase now woc ctrNodeName NodeRunning [])
      else
        (case Terminated (CtrState c) of
           None \<Rightarrow> Inr woc
         | Some t \<Rightarrow>
             let exitCode = TermExitCode t;
                 message = TermReason t @ '' (exit code '' @ showInt exitCode @ ''): ''
                             @ TermMessage t
             in if exitCode = 0
                then map_sum id fst (markNodePhase now woc ctrNodeName NodeSucceeded [])
                else if exitCode = 64
                then map_sum id fst (markNodePhase now woc ctrNodeName NodeError [message])
                else map_sum id fst (markNodePhase now woc ctrNodeName NodeFailed [message])))"

fun markContainerNodes ::
  "int \<Rightarrow> wfOperationCtx \<Rightarrow> string \<Rightarrow> ContainerStatus list \<Rightarrow> panic + wfOperationCtx" where
  "markContainerNodes now woc nodeName [] = Inr woc"
| "markContainerNodes now woc nodeName (c # rest) =
     (let ctrNodeName = nodeName @ ''.'' @ CtrName c
      in if GetNodeByName woc ctrNodeName = None
         then markContainerNodes now woc nodeName rest
         else (case markContainerNode now woc ctrNodeName c of
                 Inl p \<Rightarrow> Inl p
               | Inr woc \<Rightarrow> markContainerNodes now woc nodeName rest))"

text \<open>
  The rest of \<^verbatim>\<open>assessNodeStatus\<close> (lines 1126-1190), which works on the node of the pod
  alone: the new node, and whether it was updated.
\<close>

definition assessNodeFields ::
  "int \<Rightarrow> Pod \<Rightarrow> NodeStatus \<Rightarrow> NodePhase \<Rightarrow> bool option \<Rightarrow> string \<Rightarrow> NodeStatus \<times> bool" where
  "assessNodeFields now pod node newPhase newDaemonStatus message =
     (let (node, updated) =
            (case newDaemonStatus of
               None \<Rightarrow> (node, False)
             | Some status \<Rightarrow>
                 let newDaemonStatus = (if \<not> status then None else Some status)
                 in if (newDaemonStatus \<noteq> None \<and> Daemoned node = None)
                       \<or> (newDaemonStatus = None \<and> Daemoned node \<noteq> None)
                    then ((node\<lparr>Daemoned := newDaemonStatus\<rparr>)
                            \<lparr>PodIP := (if PodStatusIP pod \<noteq> []
                                          \<and> PodStatusIP pod \<noteq> PodIP node
                                       then PodStatusIP pod else PodIP node)\<rparr>, True)
                    else (node, False));
          node =
            (if \<not> Fulfilled (Phase node) \<and> Fulfilled newPhase
             then (case getExitCode (ContainerStatuses pod) of
                     None \<Rightarrow> node
                   | Some exitCode \<Rightarrow>
                       let outputs = \<lparr>Parameters = [], Result = None,
                                      ExitCode = Some (showInt exitCode)\<rparr>
                       in (case PodOutputsAnnotation pod of
                             None \<Rightarrow> node\<lparr>NodeOutputs := Some outputs\<rparr>
                           | Some unmarshal \<Rightarrow>
                               (case unmarshal outputs of
                                  Inr out \<Rightarrow> node\<lparr>NodeOutputs := Some out\<rparr>
                                | Inl err \<Rightarrow>
                                    node\<lparr>NodeOutputs := Some outputs, Phase := NodeError,
                                         Message := err\<rparr>)))
             else node);
          (node, updated) =
            (if Phase node \<noteq> newPhase
             then ((if Phase node = NodePending then node\<lparr>Message := []\<rparr> else node)
                     \<lparr>Phase := newPhase\<rparr>, True)
             else (node, updated));
          (node, updated) =
            (if message \<noteq> [] \<and> Message node \<noteq> message
             then (node\<lparr>Message := message\<rparr>, True) else (node, updated))
      in if Fulfilled (Phase node) \<and> FinishedAt node = 0
         then (let node = (if \<not> IsDaemoned node
                           then node\<lparr>FinishedAt := getLatestFinishedAt pod\<rparr> else node);
                   node = (if FinishedAt node = 0 then node\<lparr>FinishedAt := now\<rparr> else node)
               in (node\<lparr>ResourcesDuration := PodResourcesDuration pod\<rparr>, True))
         else (node, updated))"

text \<open>
  \<^verbatim>\<open>assessNodeStatus\<close> (lines 1042-1191): the new context, and the new state of the node when
  something changed.
\<close>

definition assessNodeStatus ::
  "int \<Rightarrow> (string \<Rightarrow> bool) \<Rightarrow> wfOperationCtx \<Rightarrow> Pod \<Rightarrow> NodeStatus
     \<Rightarrow> panic + (wfOperationCtx \<times> NodeStatus option)" where
  "assessNodeStatus now isMain woc pod node =
     (case assessPodPhase isMain woc pod node of
        None \<Rightarrow> Inr (woc, None)
      | Some (woc, newPhase, newDaemonStatus, message) \<Rightarrow>
          (case markContainerNodes now woc (Name node) (ContainerStatuses pod) of
             Inl p \<Rightarrow> Inl p
           | Inr woc \<Rightarrow>
               let (node, updated) =
                     assessNodeFields now pod node newPhase newDaemonStatus message
               in Inr (woc, if updated then Some node else None)))"

text \<open>
  The phase that the specification gives to the node of a container, from the state of the
  container: Pending when waiting, Running when running, and for a terminated container
  Succeeded for the exit code 0, Error for 64, Failed for any other.
\<close>

definition specContainerPhase :: "ContainerState \<Rightarrow> NodePhase option" where
  "specContainerPhase st =
     (if Waiting st \<noteq> None then Some NodePending
      else if Running st \<noteq> None then Some NodeRunning
      else (case Terminated st of
              None \<Rightarrow> None
            | Some t \<Rightarrow>
                if TermExitCode t = 0 then Some NodeSucceeded
                else if TermExitCode t = 64 then Some NodeError
                else Some NodeFailed))"

section \<open>Nodes whose pod has gone\<close>

text \<open>
  Modelled from the spec: the method \<^verbatim>\<open>GetReason\<close> of a node status is declared with the
  API types, outside the sources at hand. The spec: a node that waits for a
  synchronization lock is pending and annotated with the name of the lock it waits for.
\<close>

definition waitingForSyncLock :: "NodeStatus \<Rightarrow> bool" where
  "waitingForSyncLock node =
     (case SynchronizationWaiting node of None \<Rightarrow> False | Some lockName \<Rightarrow> lockName \<noteq> [])"

text \<open>
  \<^verbatim>\<open>recentlyStarted\<close> (lines 989-991). The argument \<open>env\<close> is the duration read from the
  environment variable \<^verbatim>\<open>RECENTLY_STARTED_POD_DURATION\<close>, if it is set; the default is ten
  seconds.
\<close>

definition recentlyStarted :: "int \<Rightarrow> int option \<Rightarrow> NodeStatus \<Rightarrow> bool" where
  "recentlyStarted now env node =
     (now - StartedAt node \<le> (case env of None \<Rightarrow> 10 * 1000000000 | Some d \<Rightarrow> d))"

text \<open>
  The loop of \<^verbatim>\<open>podReconciliation\<close> over the nodes, after the pods were assessed (lines
  940-986). \<open>seenPods\<close> maps the ID of a node to the pod seen for it. First the body of
  the loop, for one node. The variable \<^verbatim>\<open>node\<close> of the source is a copy, so that unsetting
  its daemon flag before \<^verbatim>\<open>markNodePhase\<close> changes nothing but the flag \<^verbatim>\<open>updated\<close>.
\<close>

definition checkDeletedPod ::
  "int \<Rightarrow> int option \<Rightarrow> (string \<rightharpoonup> Pod) \<Rightarrow> wfOperationCtx \<Rightarrow> string \<Rightarrow> NodeStatus
     \<Rightarrow> panic + wfOperationCtx" where
  "checkDeletedPod now env seenPods woc nodeID node =
     (if Type node \<noteq> NodeTypePod \<or> Fulfilled (Phase node) \<or> StartedAt node = 0
      then Inr woc
      else
        (case seenPods nodeID of
           None \<Rightarrow>
             if Phase node = NodePending \<and> waitingForSyncLock node then Inr woc
             else if recentlyStarted now env node then Inr (woc\<lparr>requeued := True\<rparr>)
             else
               (let woc = (if Daemoned node = Some True then woc\<lparr>updated := True\<rparr> else woc)
                in map_sum id fst
                     (markNodePhase now woc (Name node) NodeError [''pod deleted'']))
         | Some seenPod \<Rightarrow>
             if HostNodeName node \<noteq> PodSpecNodeName seenPod
             then Inr ((setNode woc nodeID (node\<lparr>HostNodeName := PodSpecNodeName seenPod\<rparr>))
                         \<lparr>updated := True\<rparr>)
             else Inr woc))"

text \<open>
  The loop runs over the IDs of the nodes and reads the node of an ID when its turn comes.
\<close>

fun checkDeletedPods ::
  "int \<Rightarrow> int option \<Rightarrow> (string \<rightharpoonup> Pod) \<Rightarrow> wfOperationCtx \<Rightarrow> string list
     \<Rightarrow> panic + wfOperationCtx" where
  "checkDeletedPods now env seenPods woc [] = Inr woc"
| "checkDeletedPods now env seenPods woc (nodeID # rest) =
     (case map_of (nodes woc) nodeID of
        None \<Rightarrow> checkDeletedPods now env seenPods woc rest
      | Some node \<Rightarrow>
          (case checkDeletedPod now env seenPods woc nodeID node of
             Inl p \<Rightarrow> Inl p
           | Inr woc \<Rightarrow> checkDeletedPods now env seenPods woc rest))"

definition podReconciliation_deletedPods ::
  "int \<Rightarrow> int option \<Rightarrow> (string \<rightharpoonup> Pod) \<Rightarrow> wfOperationCtx \<Rightarrow> panic + wfOperationCtx" where
  "podReconciliation_deletedPods now env seenPods woc =
     checkDeletedPods now env seenPods woc (map fst (nodes woc))"

text \<open>
  The node map is well formed when its keys are distinct and every node is stored under
  its ID, which is the ID of its name.
\<close>

definition wellFormedNodes :: "wfOperationCtx \<Rightarrow> bool" where
  "wellFormedNodes woc =
     (distinct (map fst (nodes woc))
      \<and> list_all (\<lambda>(nodeId, node). ID node = nodeId
                                    \<and> NodeID (wfObj woc) (Name node) = nodeId) (nodes woc))"

text \<open>
  What the loop does to a pod node \<open>node\<close>, stored under \<open>k\<close>, that is not fulfilled, has
  started and has no pod, read off the context \<open>woc'\<close> after the loop: a node waiting for a
  synchronization lock is as before; a node started recently is as before and the workflow
  is requeued; any other node is in phase Error with the message "pod deleted".
\<close>

definition missingPodOutcome ::
  "int \<Rightarrow> int option \<Rightarrow> NodeStatus \<Rightarrow> wfOperationCtx \<Rightarrow> string \<Rightarrow> bool" where
  "missingPodOutcome now env node woc' k =
     (if Phase node = NodePending \<and> waitingForSyncLock node
      then map_of (nodes woc') k = Some node
      else if recentlyStarted now env node
      then requeued woc' \<and> map_of (nodes woc') k = Some node
      else (case map_of (nodes woc') k of
              None \<Rightarrow> False
            | Some n' \<Rightarrow> Phase n' = NodeError \<and> Message n' = ''pod deleted''))"

section \<open>The phase mapping in the words of the specification\<close>



section \<open>Example workflows\<close>

text \<open>Concrete nodes and contexts at which the theorems below are instantiated.\<close>

definition exampleNode :: "string \<Rightarrow> NodeType \<Rightarrow> NodePhase \<Rightarrow> NodeStatus" where
  "exampleNode n t p =
     \<lparr>ID = n, Name = n, DisplayName = n, Type = t, TemplateName = ''tmpl'', TemplateScope = [],
      Phase = p, BoundaryID = [], Message = [], StartedAt = 100, FinishedAt = 0, PodIP = [],
      Daemoned = None, Inputs = None, NodeOutputs = None, Children = [], HostNodeName = [],
      NodeMemoizationStatus = None, SynchronizationWaiting = None, EstimatedDuration = 0,
      ResourcesDuration = []\<rparr>"

definition exampleController :: controller where
  "exampleController =
     \<lparr>nodeEventsEnabled = False, wfArchiveEnabled = False, isArchivable = False,
      deletePDBError = None, estimateNodeDuration = (\<lambda>_. 0), estimateWorkflowDuration = 0,
      formatSeconds = (\<lambda>_. []), marshalFailures = (\<lambda>_. []), Errorf = (\<lambda>m. m)\<rparr>"

definition exampleWorkflow :: "(string \<times> NodeStatus) list \<Rightarrow> Workflow" where
  "exampleWorkflow ns =
     \<lparr>wfName = ''wf'', wfResourceVersion = ''1'', wfLabels = Map.empty, NodeID = (\<lambda>n. n),
      wfNodes = ns, wfPhase = WorkflowRunning, wfMessage = [], wfStartedAt = 50,
      wfFinishedAt = 0, wfEstimatedDuration = 0, wfCompletedCondition = False\<rparr>"

definition exampleCtx :: "(string \<times> NodeStatus) list \<Rightarrow> wfOperationCtx" where
  "exampleCtx ns =
     \<lparr>wfObj = exampleWorkflow ns, orig = exampleWorkflow ns,
      specOnExit = [], specShutdown = ShutdownNone, specHasPDB = False, workflowDeadline = None,
      globalParams = Map.empty, updated = False, errorLog = [], events = [],
      requeued = False, requeuedAfter = [], podCleanupQueue = [], syncReleased = [],
      ctrl = exampleController\<rparr>"




definition examplePersistence :: persistence where
  "examplePersistence =
     \<lparr>getWorkflow = (\<lambda>k. if k = 1 then Inr (exampleWorkflow [])
                          else Inr ((exampleWorkflow [])\<lparr>wfPhase := WorkflowSucceeded\<rparr>)),
      updateWorkflow = (\<lambda>k w. Inl ''conflict''),
      Hydrate = Inr, Dehydrate = Inr,
      HydrateWithNodes = (\<lambda>w ns. w\<lparr>wfNodes := ns\<rparr>),
      CreateMergePatch = (\<lambda>old new. Inr ''{}''),
      ApplyMergePatch = (\<lambda>w p. Inr w)\<rparr>"

text \<open>
  A retry node with one child that ended in Error at time 200, and library functions for
  the retry arithmetic: a bare number of seconds is read by \<open>Atoi\<close>, the power is exact.
\<close>

definition exampleLibrary :: library where
  "exampleLibrary =
     \<lparr>Atoi = (\<lambda>s. if s = ''10'' then Some 10 else None),
      ParseDuration = (\<lambda>s. if s = ''10s'' then Some 10000000000
                           else if s = ''1h'' then Some 3600000000000 else None),
      PowDuration = (\<lambda>f k. f ^ nat k),
      HumanizeDuration = (\<lambda>d. if d = 40000000000 then ''40 seconds'' else ''10 seconds''),
      FormatTime = (\<lambda>t. []),
      IsTransientErr = (\<lambda>m. False),
      CanRetry = (\<lambda>n. FailedOrError (Phase n))\<rparr>"

definition exampleRetryNode :: NodeStatus where
  "exampleRetryNode = (exampleNode ''R'' NodeTypeRetry NodeRunning)\<lparr>Children := [''R(0)'']\<rparr>"

definition exampleErrorChild :: NodeStatus where
  "exampleErrorChild =
     (exampleNode ''R(0)'' NodeTypePod NodeError)\<lparr>Message := ''boom'', FinishedAt := 200\<rparr>"

definition exampleRetryCtx :: wfOperationCtx where
  "exampleRetryCtx = exampleCtx [(''R'', exampleRetryNode), (''R(0)'', exampleErrorChild)]"






definition exampleLimitStrategy :: RetryStrategy where
  "exampleLimitStrategy =
     \<lparr>Limit = Some (Inr 0), Policy = RetryPolicyAlways, RetryBackoff = None\<rparr>"


text \<open>
  A memoized container template, and a cache that holds outputs under the key K since
  time 400.
\<close>

definition exampleTemplate :: Template where
  "exampleTemplate =
     \<lparr>TmplName = ''t'', TmplType = TemplateTypeContainer, TmplNodeType = NodeTypePod,
      TmplInputs = [], TmplSuppliedOutputs = [],
      TmplMemoize = Some \<lparr>MemoizeKey = ''K'', MemoizeCacheName = ''cache'', MaxAge = ''10s''\<rparr>\<rparr>"

definition exampleEntry :: Entry where
  "exampleEntry =
     \<lparr>EntryNodeID = ''old'',
      EntryOutputs = Some \<lparr>Parameters = [(''x'', ''1'')], Result = None, ExitCode = None\<rparr>,
      CreationTimestamp = 400\<rparr>"

definition exampleCacheFactory :: "string \<Rightarrow> (string \<Rightarrow> string + Entry option) option" where
  "exampleCacheFactory name =
     (if name = ''cache''
      then Some (\<lambda>key. if key = ''K'' then Inr (Some exampleEntry) else Inr None)
      else None)"

text \<open>
  A failed pod whose main container exited with code 1 and whose sidecar was killed, and
  the test of main container names for a template with the single main container "main".
\<close>

definition exampleIsMain :: "string \<Rightarrow> bool" where
  "exampleIsMain n = (n = ''main'')"

definition exampleContainer :: "string \<Rightarrow> ContainerState \<Rightarrow> ContainerStatus" where
  "exampleContainer n st = \<lparr>CtrName = n, CtrReady = False, CtrState = st\<rparr>"

definition exited :: "int \<Rightarrow> ContainerState" where
  "exited code =
     \<lparr>Waiting = None, Running = None,
      Terminated = Some \<lparr>TermExitCode = code, TermReason = ''Error'', TermMessage = [],
                         TermFinishedAt = 300\<rparr>\<rparr>"

definition examplePod :: "PodPhase \<Rightarrow> ContainerStatus list \<Rightarrow> Pod" where
  "examplePod phase ctrs =
     \<lparr>PodName = ''A'', PodSpecNodeName = ''host'', PodTemplateAnnotation = Some (Inr False),
      PodOutputsAnnotation = None, PodStatusPhase = phase, PodStatusMessage = [],
      PodStatusIP = [], InitContainerStatuses = [], ContainerStatuses = ctrs,
      PodConditions = [], PodResourcesDuration = []\<rparr>"

text \<open>
  A pod node A with the node of its container "main", and the running pod of A whose main
  container has exited with the code 64.
\<close>

definition exampleAssessCtx :: wfOperationCtx where
  "exampleAssessCtx =
     exampleCtx [(''A'', exampleNode ''A'' NodeTypePod NodeRunning),
                 (''A.main'', exampleNode ''A.main'' NodeTypeContainer NodePending)]"

definition exampleRunningPod :: Pod where
  "exampleRunningPod = examplePod PodRunning [exampleContainer ''main'' (exited 64)]"

text \<open>The same pod for a daemon template; its container is not ready.\<close>

definition exampleDaemonPod :: Pod where
  "exampleDaemonPod = exampleRunningPod\<lparr>PodTemplateAnnotation := Some (Inr True)\<rparr>"

section \<open>Basic facts about the node map and the marking of nodes\<close>

lemma setNode_fields [simp]:
  "nodes (setNode woc k n) = AList.update k n (nodes woc)"
  "NodeID (wfObj (setNode woc k n)) = NodeID (wfObj woc)"
  "requeued (setNode woc k n) = requeued woc"
  "requeuedAfter (setNode woc k n) = requeuedAfter woc"
  by (simp_all add: setNode_def)

lemma noteMarking_fields [simp]:
  "wfObj (noteMarking woc node phase ms marked) = wfObj woc"
  "requeued (noteMarking woc node phase ms marked) = requeued woc"
  "requeuedAfter (noteMarking woc node phase ms marked) = requeuedAfter woc"
  by (simp_all add: noteMarking_def onNodeComplete_def Let_def)

lemma markedNode_fields [simp]:
  "Phase (markedNode now node phase ms) = phase"
  "ID (markedNode now node phase ms) = ID node"
  "Name (markedNode now node phase ms) = Name node"
  "Children (markedNode now node phase ms) = Children node"
  "Message (markedNode now node phase (m # rest)) = m"
  "Message (markedNode now node phase []) = Message node"
  by (simp_all add: markedNode_def Let_def split: list.splits)

text \<open>
  Marking a node that is stored under the ID of its name changes this one entry of the node
  map, and gives it the phase and the message asked for.
\<close>

lemma markNodePhase_effect:
  assumes "GetNodeByName woc nodeName = Some node"
    and "ID node = NodeID (wfObj woc) nodeName"
  shows "\<exists>woc' node'. markNodePhase now woc nodeName phase ms = Inr (woc', node')
           \<and> NodeID (wfObj woc') = NodeID (wfObj woc)
           \<and> map fst (nodes woc') = map fst (nodes woc)
           \<and> (\<forall>k. k \<noteq> NodeID (wfObj woc) nodeName
                  \<longrightarrow> map_of (nodes woc') k = map_of (nodes woc) k)
           \<and> map_of (nodes woc') (NodeID (wfObj woc) nodeName) = Some node'
           \<and> Phase node' = phase \<and> ID node' = ID node \<and> Name node' = Name node
           \<and> (\<forall>m. ms = [m] \<longrightarrow> Message node' = m)
           \<and> requeued woc' = requeued woc"
proof -
  from assms(1) have "NodeID (wfObj woc) nodeName \<in> set (map fst (nodes woc))"
    by (auto simp: GetNodeByName_def dest: map_of_SomeD intro: rev_image_eqI)
  then show ?thesis
    using assms
    by (simp add: markNodePhase_def Let_def update_conv' update_keys)
qed

lemma markNodePhase_requeuedAfter:
  "markNodePhase now woc nodeName phase ms = Inr (woc', node') \<Longrightarrow>
     requeuedAfter woc' = requeuedAfter woc"
  by (auto simp: markNodePhase_def Let_def split: option.splits)

section \<open>Marking a node that is already fulfilled\<close>

text \<open>
  C1. The claim: once the phase of a node is terminal, \<^verbatim>\<open>markNodePhase\<close> never moves the node
  to another phase. The source logs the error "node is already fulfilled" and overwrites the
  phase all the same: a node that is Succeeded, marked Failed, is Failed afterwards, in the
  value returned and in the node map.
\<close>

theorem markNodePhase_fulfilled_overwritten:
  "\<exists>woc' n'.
     markNodePhase 500 (exampleCtx [(''A'', exampleNode ''A'' NodeTypePod NodeSucceeded)])
         ''A'' NodeFailed [] = Inr (woc', n')
     \<and> map_option Phase (map_of (nodes woc') ''A'') = Some NodeFailed
     \<and> Phase n' = NodeFailed
     \<and> errorLog woc' = [''node is already fulfilled'']"
  by (simp add: markNodePhase_def markedNode_def noteMarking_def GetNodeByName_def
        exampleCtx_def exampleNode_def origFulfilled_def exampleController_def
        onNodeComplete_def exampleWorkflow_def setNode_def Let_def)

section \<open>Child edges are added once\<close>

lemma childListed_iff: "childListed c xs \<longleftrightarrow> c \<in> set xs"
  by (induction xs) auto

text \<open>
  C10. \<^verbatim>\<open>addChildNode\<close> is idempotent: with the parent initialised, a child whose ID is
  already among the children of the parent leaves the context as it is; a second call with
  the same arguments changes nothing; and children lists without duplicates stay so.
\<close>

theorem addChildNode_idempotent:
  assumes "map_of (nodes woc) (NodeID (wfObj woc) parent) = Some p"
  shows "(NodeID (wfObj woc) child \<in> set (Children p) \<longrightarrow> addChildNode woc parent child = Inr woc)
       \<and> (\<exists>woc'. addChildNode woc parent child = Inr woc'
              \<and> addChildNode woc' parent child = Inr woc')
       \<and> ((\<forall>i n. map_of (nodes woc) i = Some n \<longrightarrow> distinct (Children n)) \<longrightarrow>
            (\<forall>woc' i n. addChildNode woc parent child = Inr woc'
                \<longrightarrow> map_of (nodes woc') i = Some n \<longrightarrow> distinct (Children n)))"
  using assms
  by (auto simp: addChildNode_def Let_def childListed_iff setNode_def update_conv'
           split: if_splits)

theorem addChildNode_idempotent_witness:
  "map_of (nodes (exampleCtx [(''P'', (exampleNode ''P'' NodeTypeRetry NodeRunning)\<lparr>Children := [''P(0)'']\<rparr>)]))
       ''P'' = Some ((exampleNode ''P'' NodeTypeRetry NodeRunning)\<lparr>Children := [''P(0)'']\<rparr>)
   \<and> ''P(0)'' \<in> set (Children ((exampleNode ''P'' NodeTypeRetry NodeRunning)\<lparr>Children := [''P(0)'']\<rparr>))
   \<and> addChildNode (exampleCtx [(''P'', (exampleNode ''P'' NodeTypeRetry NodeRunning)\<lparr>Children := [''P(0)'']\<rparr>)])
        ''P'' ''P(0)''
      = Inr (exampleCtx [(''P'', (exampleNode ''P'' NodeTypeRetry NodeRunning)\<lparr>Children := [''P(0)'']\<rparr>)])"
  using addChildNode_idempotent
    [of "exampleCtx [(''P'', (exampleNode ''P'' NodeTypeRetry NodeRunning)\<lparr>Children := [''P(0)'']\<rparr>)]"
        "''P''" "(exampleNode ''P'' NodeTypeRetry NodeRunning)\<lparr>Children := [''P(0)'']\<rparr>" "''P(0)''"]
  by (simp add: exampleCtx_def exampleWorkflow_def exampleNode_def)

section \<open>From the entry node to the workflow phase\<close>

lemma deletePDBResource_update [simp]:
  "deletePDBResource (woc\<lparr>wfObj := w\<rparr>) = deletePDBResource woc"
  "deletePDBResource (woc\<lparr>updated := u\<rparr>) = deletePDBResource woc"
  "deletePDBResource (woc\<lparr>events := e\<rparr>) = deletePDBResource woc"
  "deletePDBResource (woc\<lparr>globalParams := g\<rparr>) = deletePDBResource woc"
  by (simp_all add: deletePDBResource_def)

lemma setWorkflowPhase_fields [simp]:
  "wfPhase (wfObj (setWorkflowPhase woc phase message)) = phase"
  "deletePDBResource (setWorkflowPhase woc phase message) = deletePDBResource woc"
  by (simp_all add: setWorkflowPhase_def)

lemma setWorkflowStartAndMessage_fields [simp]:
  "wfPhase (wfObj (setWorkflowStartAndMessage now woc message)) = wfPhase (wfObj woc)"
  "wfMessage (wfObj (setWorkflowStartAndMessage now woc message)) = message"
  "deletePDBResource (setWorkflowStartAndMessage now woc message) = deletePDBResource woc"
  by (simp_all add: setWorkflowStartAndMessage_def Let_def)

lemma failRunningEntryNode_fields [simp]:
  "wfPhase (wfObj (failRunningEntryNode woc phase)) = wfPhase (wfObj woc)"
  "wfMessage (wfObj (failRunningEntryNode woc phase)) = wfMessage (wfObj woc)"
  "deletePDBResource (failRunningEntryNode woc phase) = deletePDBResource woc"
  by (simp_all add: failRunningEntryNode_def setNode_def split: option.splits)


lemma list_ex_update:
  assumes "map_of xs k = Some v0" and "P (k, v) = P (k, v0)"
  shows "list_ex P (AList.update k v xs) = list_ex P xs"
  using assms by (induction xs) (auto split: if_splits)

lemma hasDaemonNodes_failRunningEntryNode [simp]:
  "hasDaemonNodes (failRunningEntryNode woc phase) = hasDaemonNodes woc"
proof (cases "map_of (nodes woc) (wfName (wfObj woc))")
  case None
  then show ?thesis by (simp add: failRunningEntryNode_def)
next
  case (Some entryNode)
  let ?P = "\<lambda>(nodeId, node). IsDaemoned node"
  let ?n = "entryNode\<lparr>Phase := NodeError, Message := ''Workflow operation error''\<rparr>"
  have "?P (wfName (wfObj woc), ?n) = ?P (wfName (wfObj woc), entryNode)"
    by (simp add: IsDaemoned_def)
  with Some have "list_ex ?P (AList.update (wfName (wfObj woc)) ?n (nodes woc))
                    = list_ex ?P (nodes woc)"
    by (rule list_ex_update)
  with Some show ?thesis
    by (simp add: failRunningEntryNode_def hasDaemonNodes_def)
qed

lemma hasDaemonNodes_set [simp]:
  "hasDaemonNodes (setWorkflowPhase woc phase message) = hasDaemonNodes woc"
  "hasDaemonNodes (setWorkflowStartAndMessage now woc message) = hasDaemonNodes woc"
  by (simp_all add: hasDaemonNodes_def setWorkflowPhase_def setWorkflowStartAndMessage_def
        Let_def)






section \<open>Re-applying an update never regresses a completed workflow or node\<close>

lemma completedNodeChanged_None:
  "completedNodeChanged ns cs = None \<Longrightarrow> (i, node) \<in> set ns \<Longrightarrow> map_of cs i = Some cn
     \<Longrightarrow> Fulfilled (Phase cn) \<Longrightarrow> Phase node = Phase cn"
  by (induction ns cs rule: completedNodeChanged.induct) (auto split: option.splits if_splits)

text \<open>
  The loop ends in an attempt between the first one and the fifth, and has then called
  \<^verbatim>\<open>Update\<close> once in every attempt, but possibly not in the last.
\<close>

lemma reapplyLoop_counts:
  "reapplyLoop api w p ns attempt u = (r, k, n) \<Longrightarrow> attempt \<le> 5 \<Longrightarrow>
     attempt \<le> k \<and> k \<le> 5 \<and> u + (k - attempt) \<le> n \<and> n \<le> u + (k - attempt) + 1"
proof (induction api w p ns attempt u rule: reapplyLoop.induct)
  case (1 api wocWf patchBytes ns attempt updates)
  from "1.prems" show ?case
    apply (subst (asm) reapplyLoop.simps)
    apply (auto split: sum.splits if_splits option.splits dest!: "1.IH")
    done
qed

text \<open>What the version fetched in the last attempt says about the result.\<close>

lemma reapplyLoop_last_fetch:
  "reapplyLoop api w p ns attempt u = (r, k, n) \<Longrightarrow>
     (case getWorkflow api k of
        Inl e \<Rightarrow> r = Inl e
      | Inr c \<Rightarrow>
          if Completed (wfPhase c) then r = Inl ''must never update completed workflows''
          else (case Hydrate api c of
                  Inl e \<Rightarrow> r = Inl e
                | Inr c' \<Rightarrow>
                    (case completedNodeChanged (wfNodes w) (wfNodes c') of
                       Some i \<Rightarrow> r = Inl (''must never update completed node '' @ i)
                     | None \<Rightarrow> True)))"
proof (induction api w p ns attempt u rule: reapplyLoop.induct)
  case (1 api wocWf patchBytes ns attempt updates)
  from "1.prems" show ?case
    apply (subst (asm) reapplyLoop.simps)
    apply (auto split: sum.splits if_splits option.splits dest!: "1.IH")
    done
qed

lemma reapplyLoop_last_error:
  "reapplyLoop api w p ns attempt u = (Inl e, k, n) \<Longrightarrow> attempt \<le> 5
     \<Longrightarrow> n = u + (k - attempt) + 1
     \<Longrightarrow> k = 5 \<and> (\<exists>newWf. updateWorkflow api 5 newWf = Inl e)"
proof (induction api w p ns attempt u rule: reapplyLoop.induct)
  case (1 api wocWf patchBytes ns attempt updates)
  from "1.prems" show ?case
    apply (subst (asm) reapplyLoop.simps)
    apply (auto split: sum.splits if_splits option.splits dest!: "1.IH"
             dest: reapplyLoop_counts)
    subgoal premises prems for c c' newWf newWf'
    proof -
      from prems have "k = 5" by arith
      with prems show ?thesis by blast
    qed
    done
qed

text \<open>
  C3. When \<^verbatim>\<open>reapplyUpdate\<close> returns (the resource versions match, so it does not panic),
  with result \<open>r\<close> after \<open>k\<close> attempts and \<open>n\<close> calls of \<^verbatim>\<open>Update\<close>: if the version
  fetched last is completed, the result is the error "must never update completed
  workflows"; if a node of the update has another phase than its fulfilled counterpart in
  the version fetched last, the result is the error "must never update completed node";
  there are at most five attempts and at most five calls of \<^verbatim>\<open>Update\<close>; and after five
  calls that all failed the result is the error of the fifth.
\<close>

theorem reapplyUpdate_safe:
  assumes "reapplyUpdate api woc ns = Inr (r, k, n)"
  shows "(\<forall>c. 1 \<le> k \<and> getWorkflow api k = Inr c \<and> Completed (wfPhase c)
             \<longrightarrow> r = Inl ''must never update completed workflows'')
       \<and> (\<forall>c c' i node cn.
             1 \<le> k \<and> getWorkflow api k = Inr c \<and> \<not> Completed (wfPhase c)
             \<and> Hydrate api c = Inr c'
             \<and> (i, node) \<in> set (wfNodes (HydrateWithNodes api (wfObj woc) ns))
             \<and> map_of (wfNodes c') i = Some cn \<and> Fulfilled (Phase cn) \<and> Phase node \<noteq> Phase cn
             \<longrightarrow> (\<exists>j. r = Inl (''must never update completed node '' @ j)))
       \<and> k \<le> 5 \<and> n \<le> k
       \<and> (\<forall>e. r = Inl e \<and> n = 5 \<longrightarrow> (\<exists>newWf. updateWorkflow api 5 newWf = Inl e))"
proof (cases "k = 0")
  case True
  with assms show ?thesis
    by (auto simp: reapplyUpdate_def Let_def split: if_splits sum.splits
             dest: reapplyLoop_counts)
next
  case False
  with assms obtain p where
    loop: "reapplyLoop api (HydrateWithNodes api (wfObj woc) ns) p ns 1 0 = (r, k, n)"
    by (auto simp: reapplyUpdate_def Let_def split: if_splits sum.splits)
  from reapplyLoop_counts [OF loop] have cnt: "1 \<le> k" "k \<le> 5" "k - 1 \<le> n" "n \<le> k"
    by auto
  have last: "\<forall>e. r = Inl e \<and> n = 5 \<longrightarrow> (\<exists>newWf. updateWorkflow api 5 newWf = Inl e)"
    using reapplyLoop_last_error [of api _ p ns 1 0 _ k n] loop cnt by auto
  from reapplyLoop_last_fetch [OF loop] cnt last show ?thesis
    by (auto split: sum.splits if_splits option.splits dest: completedNodeChanged_None)
qed

theorem reapplyUpdate_safe_witness:
  "reapplyUpdate examplePersistence (exampleCtx []) []
     = Inr (Inl ''must never update completed workflows'', 2, 1)
   \<and> getWorkflow examplePersistence 2 = Inr ((exampleWorkflow [])\<lparr>wfPhase := WorkflowSucceeded\<rparr>)
   \<and> Completed (wfPhase ((exampleWorkflow [])\<lparr>wfPhase := WorkflowSucceeded\<rparr>))"
proof -
  have run: "reapplyUpdate examplePersistence (exampleCtx []) []
               = Inr (Inl ''must never update completed workflows'', 2, 1)"
    by (simp add: reapplyUpdate_def reapplyLoop.simps examplePersistence_def exampleCtx_def
          exampleWorkflow_def)
  from reapplyUpdate_safe [OF run] run show ?thesis
    by (simp add: examplePersistence_def exampleWorkflow_def)
qed

section \<open>Retries: backoff and limit\<close>


lemma toInt32_id: "- (2 ^ 31) \<le> x \<Longrightarrow> x < 2 ^ 31 \<Longrightarrow> toInt32 x = x"
  by (simp add: toInt32_def)

lemma markedNode_keep_phase:
  "\<not> Fulfilled (Phase node) \<Longrightarrow> markedNode now node (Phase node) [m] = node\<lparr>Message := m\<rparr>"
  by (cases "m = Message node") (simp_all add: markedNode_def)

text \<open>
  Marking a node with the phase it has, or with a fulfilled phase, writes the marked node
  under the ID of the node and leaves every other entry of the node map as it is.
\<close>

lemma markNodePhase_keep_phase:
  assumes "GetNodeByName woc nodeName = Some node" and "\<not> Fulfilled (Phase node)"
  shows "\<exists>woc'. markNodePhase now woc nodeName (Phase node) [m] = Inr (woc', node\<lparr>Message := m\<rparr>)
           \<and> requeuedAfter woc' = requeuedAfter woc
           \<and> NodeID (wfObj woc') = NodeID (wfObj woc)
           \<and> map_of (nodes woc') (ID node) = Some (node\<lparr>Message := m\<rparr>)
           \<and> (\<forall>k. k \<noteq> ID node \<longrightarrow> map_of (nodes woc') k = map_of (nodes woc) k)"
  using assms
  by (simp add: markNodePhase_def Let_def markedNode_keep_phase update_conv')

lemma markNodePhase_fulfil:
  assumes "GetNodeByName woc nodeName = Some node" and "Fulfilled phase"
  shows "\<exists>woc' node'. markNodePhase now woc nodeName phase [m] = Inr (woc', node')
           \<and> Phase node' = phase \<and> Message node' = m \<and> Children node' = Children node
           \<and> requeuedAfter woc' = requeuedAfter woc
           \<and> map_of (nodes woc') (ID node) = Some node'
           \<and> (\<forall>k. k \<noteq> ID node \<longrightarrow> map_of (nodes woc') k = map_of (nodes woc) k)"
  using assms
  by (simp add: markNodePhase_def Let_def update_conv')

lemma markedResult_requeuedAfter:
  "markedResult (markNodePhase now woc nodeName phase ms) e c = Inr (woc', res) \<Longrightarrow>
     requeuedAfter woc' = requeuedAfter woc"
  by (auto simp: markedResult_def split: sum.splits dest: markNodePhase_requeuedAfter)

lemma processRetryPolicy_requeuedAfter:
  "processRetryPolicy now lib woc node lastChild rs e = Inr (woc', res) \<Longrightarrow>
     requeuedAfter woc' = requeuedAfter woc"
  by (auto simp: processRetryPolicy_def split: option.splits if_splits sum.splits prod.splits
           dest: markedResult_requeuedAfter)



lemma getChildNodeIndex_nonempty:
  "getChildNodeIndex node ns i = Inr (Some c) \<Longrightarrow> Children node \<noteq> []"
  by (auto simp: getChildNodeIndex_def split: if_splits)

text \<open>
  The backoff as a chain of four cases: the maximal duration has passed; the wait would end
  after it; the wait has not ended; the wait has ended.
\<close>

lemma processBackoff_unfold:
  assumes ne: "Children node \<noteq> []"
    and bo: "Duration b \<noteq> []" "parseStringToDuration lib (Duration b) = Inr d" "Factor b = Inr f"
    and md: "MaxDuration b \<noteq> [] \<longrightarrow>
               parseStringToDuration lib (MaxDuration b) = Inr maxDuration
               \<and> getChildNodeIndex node (nodes woc) 0 = Inr (Some firstChild)
               \<and> StartedAt firstChild + maxDuration \<noteq> 0"
    and w: "wait = timeToWait lib d f (length (Children node))"
    and dl: "deadline = StartedAt firstChild + maxDuration"
  shows "processBackoff now lib woc node lastChild b e =
     (if MaxDuration b \<noteq> [] \<and> deadline < now
      then Inl (markedResult (markNodePhase now woc (Name node) (Phase lastChild)
                          [''Max duration limit exceeded'']) e True)
      else if MaxDuration b \<noteq> [] \<and> deadline < FinishedAt lastChild + wait
      then Inl (markedResult (markNodePhase now woc (Name node) (Phase lastChild)
                          [''Backoff would exceed max duration limit'']) e True)
      else if now < FinishedAt lastChild + wait
      then Inl (markedResult (markNodePhase now (woc\<lparr>requeuedAfter := requeuedAfter woc @ [wait]\<rparr>)
                          (Name node) (Phase node) [''Backoff for '' @ HumanizeDuration lib wait])
                  e False)
      else (case markNodePhase now woc (Name node) (Phase node) [[]] of
              Inl p \<Rightarrow> Inl (Inl p)
            | Inr (woc, node) \<Rightarrow> Inr (woc, node, if MaxDuration b = [] then 0 else deadline)))"
proof (cases "MaxDuration b = []")
  case True
  then have "maxDurationDeadlineOf lib woc node b = Inr (Inr 0)"
    by (simp add: maxDurationDeadlineOf_def)
  with True bo w show ?thesis by (simp add: processBackoff_def Let_def)
next
  case False
  with md ne dl have "maxDurationDeadlineOf lib woc node b = Inr (Inr deadline)"
    and "deadline \<noteq> 0"
    by (simp_all add: maxDurationDeadlineOf_def)
  with False bo w ne show ?thesis by (simp add: processBackoff_def Let_def)
qed




text \<open>
  C5, as stated, fails: with the policy Always, a limit of 0 and one child that ended in
  Error, the retry node is marked Error, not Failed.
\<close>

theorem processNodeRetries_limit_counterexample:
  "map_option Phase (returnedNode (processNodeRetries 500 exampleLibrary exampleRetryCtx
       exampleRetryNode exampleLimitStrategy 0)) = Some NodeError
   \<and> map_option Message (returnedNode (processNodeRetries 500 exampleLibrary exampleRetryCtx
       exampleRetryNode exampleLimitStrategy 0)) = Some ''No more retries left''
   \<and> Fulfilled (Phase exampleErrorChild) \<and> FailedOrError (Phase exampleErrorChild)
   \<and> Limit exampleLimitStrategy = Some (Inr 0)
   \<and> int (length (Children exampleRetryNode)) > 0"
  by (simp add: processNodeRetries_def processRetryPolicy_def retryFlags_def getChildNodeIndex_def
        exampleRetryCtx_def exampleRetryNode_def exampleErrorChild_def exampleLimitStrategy_def
        exampleLibrary_def exampleCtx_def exampleWorkflow_def exampleNode_def
        exampleController_def markNodePhase_def markedNode_def noteMarking_def
        GetNodeByName_def markedResult_def returnedNode_def setNode_def origFulfilled_def
        onNodeComplete_def toInt32_def Let_def)

text \<open>
  When the wait of a backoff has ended, and a maximal duration, if set, has not passed, the
  retry goes on to the policy with the message of the node cleared; the node of the name is
  then the node as it was or the node with the cleared message.
\<close>

lemma processBackoff_elapsed:
  assumes nf: "\<not> Fulfilled (Phase node)"
    and stored: "GetNodeByName woc (Name node) = Some node"
    and ne: "Children node \<noteq> []"
    and bo: "Duration b \<noteq> []" "parseStringToDuration lib (Duration b) = Inr d" "Factor b = Inr f"
    and el: "FinishedAt lastChild + timeToWait lib d f (length (Children node)) \<le> now"
    and md: "MaxDuration b \<noteq> [] \<longrightarrow>
               parseStringToDuration lib (MaxDuration b) = Inr maxDuration
               \<and> getChildNodeIndex node (nodes woc) 0 = Inr (Some firstChild)
               \<and> StartedAt firstChild + maxDuration \<noteq> 0
               \<and> now \<le> StartedAt firstChild + maxDuration"
  shows "\<exists>wocB eB st. processBackoff now lib woc node lastChild b e
                          = Inr (wocB, node\<lparr>Message := []\<rparr>, eB)
           \<and> GetNodeByName wocB (Name node) = Some st
           \<and> ID st = ID node \<and> Children st = Children node
           \<and> (\<forall>k. k \<noteq> ID node \<longrightarrow> map_of (nodes wocB) k = map_of (nodes woc) k)"
proof -
  let ?wait = "timeToWait lib d f (length (Children node))"
  let ?deadline = "StartedAt firstChild + maxDuration"
  from md have md': "MaxDuration b \<noteq> [] \<longrightarrow>
               parseStringToDuration lib (MaxDuration b) = Inr maxDuration
               \<and> getChildNodeIndex node (nodes woc) 0 = Inr (Some firstChild)
               \<and> StartedAt firstChild + maxDuration \<noteq> 0" by simp
  note pb = processBackoff_unfold [OF ne bo md' refl refl, of now lastChild e]
  from markNodePhase_keep_phase [OF stored nf, of now "[]"] obtain wocB where
    m: "markNodePhase now woc (Name node) (Phase node) [[]] = Inr (wocB, node\<lparr>Message := []\<rparr>)"
    and ids: "NodeID (wfObj wocB) = NodeID (wfObj woc)"
    and s: "map_of (nodes wocB) (ID node) = Some (node\<lparr>Message := []\<rparr>)"
    and o: "\<forall>k. k \<noteq> ID node \<longrightarrow> map_of (nodes wocB) k = map_of (nodes woc) k"
    by blast
  have r: "processBackoff now lib woc node lastChild b e
             = Inr (wocB, node\<lparr>Message := []\<rparr>, if MaxDuration b = [] then 0 else ?deadline)"
    using pb el md m by auto
  have "\<exists>st. GetNodeByName wocB (Name node) = Some st \<and> ID st = ID node
              \<and> Children st = Children node"
  proof (cases "NodeID (wfObj woc) (Name node) = ID node")
    case True
    with s ids show ?thesis by (simp add: GetNodeByName_def)
  next
    case False
    with o stored ids show ?thesis by (simp add: GetNodeByName_def)
  qed
  with r o show ?thesis by blast
qed

text \<open>
  C5, amended. A retry node that is not fulfilled and is the node stored under its name,
  whose last child failed or errored, in a workflow that is neither shut down nor past its
  deadline. The strategy has no backoff, or a backoff whose base duration parses, whose
  factor reads, whose wait has ended, and whose maximal duration, if set, parses and has
  not passed since the start of the first child (that start plus the maximal duration not
  being the zero time). The policy allows the retry of the last child, the strategy
  declares a limit, and the number of children, which is less than \<open>2 ^ 31\<close>, exceeds the
  limit. Then \<^verbatim>\<open>processNodeRetries\<close> stores the retry node with the phase of the last child
  (Failed or Error) and the message "No more retries left", with the children it had, and
  changes no other node; it returns that node, which is fulfilled, and tells the caller to
  continue; and \<^verbatim>\<open>executeTemplate\<close> then returns the node without adding a child.
\<close>

theorem processNodeRetries_limit:
  assumes nf: "\<not> Fulfilled (Phase node)"
    and stored: "GetNodeByName woc (Name node) = Some node"
    and last: "getChildNodeIndex node (nodes woc) (- 1) = Inr (Some lastChild)"
    and failed: "FailedOrError (Phase lastChild)"
    and run: "\<not> ShutdownEnabled (specShutdown woc)"
             "case workflowDeadline woc of None \<Rightarrow> True | Some t \<Rightarrow> now \<le> t"
    and bo: "case RetryBackoff rs of
               None \<Rightarrow> True
             | Some b \<Rightarrow>
                 Duration b \<noteq> [] \<and> parseStringToDuration lib (Duration b) = Inr d
                 \<and> Factor b = Inr f
                 \<and> FinishedAt lastChild + timeToWait lib d f (length (Children node)) \<le> now
                 \<and> (MaxDuration b \<noteq> [] \<longrightarrow>
                       parseStringToDuration lib (MaxDuration b) = Inr maxDuration
                       \<and> getChildNodeIndex node (nodes woc) 0 = Inr (Some firstChild)
                       \<and> StartedAt firstChild + maxDuration \<noteq> 0
                       \<and> now \<le> StartedAt firstChild + maxDuration)"
    and policy: "retryFlags lib (Policy rs) lastChild = Some (retryOnFailed, retryOnError)"
                "Phase lastChild = NodeFailed \<longrightarrow> retryOnFailed"
                "Phase lastChild = NodeError \<longrightarrow> retryOnError"
                "CanRetry lib lastChild"
    and limit: "Limit rs = Some (Inr limit)" "limit < int (length (Children node))"
               "length (Children node) < 2 ^ 31"
  shows "\<exists>woc' e' node'.
           processNodeRetries now lib woc node rs e = Inr (woc', e', Inr (node', True))
           \<and> Phase node' = Phase lastChild \<and> Message node' = ''No more retries left''
           \<and> Fulfilled (Phase node')
           \<and> Children node' = Children node
           \<and> map_of (nodes woc') (ID node) = Some node'
           \<and> (\<forall>k. k \<noteq> ID node \<longrightarrow> map_of (nodes woc') k = map_of (nodes woc) k)
           \<and> (\<exists>woc''. executeTemplate_retry now lib woc (Name node) (Some node) processedTmpl
                          (Some rs) synchronized substituteError templateScope orgTmplName
                          boundaryID e
                        = Inr (woc'', e', RetryReturned (Some node') None)
                      \<and> nodes woc'' = nodes woc')"
proof -
  have ne: "Children node \<noteq> []" using last by (rule getChildNodeIndex_nonempty)
  have lf: "Fulfilled (Phase lastChild)" using failed by (cases "Phase lastChild") auto
  have dl: "\<not> (case workflowDeadline woc of None \<Rightarrow> False | Some t \<Rightarrow> now > t)"
    using run(2) by (auto split: option.splits)
  have "\<exists>wocB nodeB eB st.
          processNodeRetries now lib woc node rs e
            = processRetryPolicy now lib wocB nodeB lastChild rs eB
          \<and> Name nodeB = Name node \<and> Children nodeB = Children node
          \<and> GetNodeByName wocB (Name node) = Some st
          \<and> ID st = ID node \<and> Children st = Children node
          \<and> (\<forall>k. k \<noteq> ID node \<longrightarrow> map_of (nodes wocB) k = map_of (nodes woc) k)"
  proof (cases "RetryBackoff rs")
    case None
    then have "processNodeRetries now lib woc node rs e
                 = processRetryPolicy now lib woc node lastChild rs e"
      using nf last lf failed run(1) dl by (simp add: processNodeRetries_def)
    with stored show ?thesis by blast
  next
    case (Some b)
    with bo have b: "Duration b \<noteq> []" "parseStringToDuration lib (Duration b) = Inr d"
        "Factor b = Inr f"
      and el: "FinishedAt lastChild + timeToWait lib d f (length (Children node)) \<le> now"
      and md: "MaxDuration b \<noteq> [] \<longrightarrow>
                 parseStringToDuration lib (MaxDuration b) = Inr maxDuration
                 \<and> getChildNodeIndex node (nodes woc) 0 = Inr (Some firstChild)
                 \<and> StartedAt firstChild + maxDuration \<noteq> 0
                 \<and> now \<le> StartedAt firstChild + maxDuration"
      by simp_all
    from processBackoff_elapsed [OF nf stored ne b el md, of e] obtain wocB eB st where
      p: "processBackoff now lib woc node lastChild b e = Inr (wocB, node\<lparr>Message := []\<rparr>, eB)"
      and g: "GetNodeByName wocB (Name node) = Some st" "ID st = ID node"
             "Children st = Children node"
             "\<forall>k. k \<noteq> ID node \<longrightarrow> map_of (nodes wocB) k = map_of (nodes woc) k"
      by blast
    have "processNodeRetries now lib woc node rs e
            = processRetryPolicy now lib wocB (node\<lparr>Message := []\<rparr>) lastChild rs eB"
      using nf last lf failed run(1) dl Some p by (simp add: processNodeRetries_def)
    moreover have "Name (node\<lparr>Message := []\<rparr>) = Name node"
      "Children (node\<lparr>Message := []\<rparr>) = Children node" by simp_all
    ultimately show ?thesis using g by blast
  qed
  then obtain wocB nodeB eB st where
    eq: "processNodeRetries now lib woc node rs e
           = processRetryPolicy now lib wocB nodeB lastChild rs eB"
    and nb: "Name nodeB = Name node" "Children nodeB = Children node"
    and g: "GetNodeByName wocB (Name node) = Some st" "ID st = ID node"
           "Children st = Children node"
    and ob: "\<forall>k. k \<noteq> ID node \<longrightarrow> map_of (nodes wocB) k = map_of (nodes woc) k"
    by blast
  have over: "toInt32 (int (length (Children nodeB))) > limit"
    using limit(2,3) nb by (simp add: toInt32_id)
  from markNodePhase_fulfil [OF g(1) lf, of now "''No more retries left''"]
  obtain woc' node' where
    m: "markNodePhase now wocB (Name node) (Phase lastChild) [''No more retries left'']
          = Inr (woc', node')"
    and r: "Phase node' = Phase lastChild" "Message node' = ''No more retries left''"
           "Children node' = Children st"
           "map_of (nodes woc') (ID st) = Some node'"
    and o: "\<forall>k. k \<noteq> ID st \<longrightarrow> map_of (nodes woc') k = map_of (nodes wocB) k"
    by blast
  have "processRetryPolicy now lib wocB nodeB lastChild rs eB = Inr (woc', eB, Inr (node', True))"
    using policy limit(1) over m failed nb
    by (auto simp: processRetryPolicy_def markedResult_def)
  with eq have res: "processNodeRetries now lib woc node rs e = Inr (woc', eB, Inr (node', True))"
    by simp
  have fn: "Fulfilled (Phase node')" using r lf by simp
  have others: "\<forall>k. k \<noteq> ID node \<longrightarrow> map_of (nodes woc') k = map_of (nodes woc) k"
    using o ob g(2) by simp
  have "\<exists>woc''. executeTemplate_retry now lib woc (Name node) (Some node) processedTmpl
                   (Some rs) synchronized substituteError templateScope orgTmplName
                   boundaryID e
                 = Inr (woc'', eB, RetryReturned (Some node') None)
               \<and> nodes woc'' = nodes woc'"
    using res fn by (cases synchronized) (simp_all add: executeTemplate_retry_def)
  with res r fn g others show ?thesis by auto
qed

text \<open>
  The theorem at the retry node with one child that ended in Error, for the limit 0
  without a backoff.
\<close>

theorem processNodeRetries_limit_witness:
  "\<not> Fulfilled (Phase exampleRetryNode)
   \<and> getChildNodeIndex exampleRetryNode (nodes exampleRetryCtx) (- 1) = Inr (Some exampleErrorChild)
   \<and> FailedOrError (Phase exampleErrorChild)
   \<and> (\<exists>woc' e' node'. processNodeRetries 500 exampleLibrary exampleRetryCtx exampleRetryNode
          exampleLimitStrategy 0 = Inr (woc', e', Inr (node', True))
        \<and> Phase node' = NodeError \<and> Message node' = ''No more retries left''
        \<and> map_of (nodes woc') ''R'' = Some node'
        \<and> (\<exists>woc''. executeTemplate_retry 500 exampleLibrary exampleRetryCtx ''R''
                       (Some exampleRetryNode) exampleTemplate (Some exampleLimitStrategy)
                       False None [] ''tmpl'' [] 0
                     = Inr (woc'', e', RetryReturned (Some node') None)
                   \<and> nodes woc'' = nodes woc'))"
proof -
  note defs = getChildNodeIndex_def exampleRetryCtx_def exampleRetryNode_def
    exampleErrorChild_def exampleLimitStrategy_def exampleLibrary_def
    exampleCtx_def exampleWorkflow_def exampleNode_def GetNodeByName_def retryFlags_def
  have h1: "\<not> Fulfilled (Phase exampleRetryNode)"
    and h2: "GetNodeByName exampleRetryCtx (Name exampleRetryNode) = Some exampleRetryNode"
    and h3: "getChildNodeIndex exampleRetryNode (nodes exampleRetryCtx) (- 1)
               = Inr (Some exampleErrorChild)"
    and h4: "FailedOrError (Phase exampleErrorChild)"
    and h5: "\<not> ShutdownEnabled (specShutdown exampleRetryCtx)"
    and h6: "case workflowDeadline exampleRetryCtx of None \<Rightarrow> True | Some t \<Rightarrow> 500 \<le> t"
    and h8: "retryFlags exampleLibrary (Policy exampleLimitStrategy) exampleErrorChild
               = Some (True, True)"
    and h9: "CanRetry exampleLibrary exampleErrorChild"
    and h10: "Limit exampleLimitStrategy = Some (Inr 0)"
    and h11: "0 < int (length (Children exampleRetryNode))"
    and h12: "length (Children exampleRetryNode) < 2 ^ 31"
    by (simp_all add: defs)
  have h7: "case RetryBackoff exampleLimitStrategy of
               None \<Rightarrow> True
             | Some b \<Rightarrow>
                 Duration b \<noteq> [] \<and> parseStringToDuration exampleLibrary (Duration b) = Inr 0
                 \<and> Factor b = Inr None
                 \<and> FinishedAt exampleErrorChild
                     + timeToWait exampleLibrary 0 None (length (Children exampleRetryNode)) \<le> 500
                 \<and> (MaxDuration b \<noteq> [] \<longrightarrow>
                       parseStringToDuration exampleLibrary (MaxDuration b) = Inr 0
                       \<and> getChildNodeIndex exampleRetryNode (nodes exampleRetryCtx) 0
                           = Inr (Some exampleErrorChild)
                       \<and> StartedAt exampleErrorChild + 0 \<noteq> 0
                       \<and> 500 \<le> StartedAt exampleErrorChild + 0)"
    by (simp add: exampleLimitStrategy_def)
  have p: "Phase exampleErrorChild = NodeError" "ID exampleRetryNode = ''R''"
          "Name exampleRetryNode = ''R''"
    by (simp_all add: defs)
  from processNodeRetries_limit [OF h1 h2 h3 h4 h5 h6 h7 h8 _ _ h9 h10 h11 h12,
      where e = 0 and processedTmpl = exampleTemplate and synchronized = False
        and substituteError = None and templateScope = "[]" and orgTmplName = "''tmpl''"
        and boundaryID = "[]"]
    p h1 h3 h4
  show ?thesis by auto
qed

section \<open>Memoization\<close>

lemma initializeNode_fresh:
  assumes "GetNodeByName woc nodeName = None"
  shows "\<exists>woc' node. initializeNode now woc nodeName nodeType scope org boundaryID phase ms
            = Inr (woc', node)
          \<and> ID node = NodeID (wfObj woc) nodeName \<and> Name node = nodeName \<and> Phase node = phase
          \<and> Type node = nodeType \<and> NodeOutputs node = None \<and> StartedAt node = now
          \<and> NodeID (wfObj woc') = NodeID (wfObj woc)"
  using assms
  by (auto simp: initializeNode_def GetNodeByName_def Let_def setNode_def split: list.splits)

lemma initializeExecutableNode_fresh:
  assumes "GetNodeByName woc nodeName = None"
    and "nodeType = NodeTypeSuspend \<longrightarrow> TmplType tmpl = TemplateTypeSuspend"
  shows "\<exists>woc' node. initializeExecutableNode now woc nodeName nodeType scope tmpl org boundaryID phase ms
            = Inr (woc', node)
          \<and> ID node = NodeID (wfObj woc) nodeName \<and> Name node = nodeName \<and> Phase node = phase
          \<and> StartedAt node = now
          \<and> NodeID (wfObj woc') = NodeID (wfObj woc)"
proof -
  from initializeNode_fresh [OF assms(1), of now nodeType scope org boundaryID phase "[]"]
  obtain woc1 node1 where
    i: "initializeNode now woc nodeName nodeType scope org boundaryID phase [] = Inr (woc1, node1)"
    and f: "ID node1 = NodeID (wfObj woc) nodeName" "Name node1 = nodeName" "Phase node1 = phase"
       "NodeID (wfObj woc1) = NodeID (wfObj woc)" "Type node1 = nodeType" "StartedAt node1 = now"
    by blast
  show ?thesis
    using i f assms(2)
    by (auto simp: initializeExecutableNode_def addRawOutputFields_def Let_def setNode_def
             split: list.splits)
qed

lemma GetNodeByName_setNode:
  "nodeId = NodeID (wfObj woc) nodeName \<Longrightarrow>
     GetNodeByName ((setNode woc nodeId node)\<lparr>updated := u\<rparr>) nodeName = Some node"
  by (simp add: GetNodeByName_def setNode_def update_conv')


lemma cacheNode_shape:
  assumes fresh: "GetNodeByName woc nodeName = None"
    and memo: "TmplMemoize tmpl = Some m"
    and susp: "TmplNodeType tmpl = NodeTypeSuspend \<longrightarrow> TmplType tmpl = TemplateTypeSuspend"
  shows "\<exists>woc' node. initializeCacheNode now woc nodeName tmpl scope org boundaryID memStat []
            = Inr (woc', node)
          \<and> ID node = NodeID (wfObj woc) nodeName \<and> Name node = nodeName
          \<and> Phase node = NodePending \<and> NodeMemoizationStatus node = Some memStat
          \<and> StartedAt node = now
          \<and> NodeID (wfObj woc') = NodeID (wfObj woc)"
proof -
  from initializeExecutableNode_fresh [OF fresh susp, of now scope org boundaryID NodePending "[]"]
  obtain woc1 node1 where
    "initializeExecutableNode now woc nodeName (TmplNodeType tmpl) scope tmpl org boundaryID
        NodePending [] = Inr (woc1, node1)"
    "ID node1 = NodeID (wfObj woc) nodeName" "Name node1 = nodeName" "Phase node1 = NodePending"
    "NodeID (wfObj woc1) = NodeID (wfObj woc)" "StartedAt node1 = now"
    by blast
  then show ?thesis using memo by (auto simp: initializeCacheNode_def)
qed

text \<open>
  C6. A node that does not exist yet, a template that resolves and is memoized, a cache that
  exists and answers the lookup of the key with an entry or none, and a maximal age, if set,
  that parses. The lookup is a hit exactly when an entry exists and, with a maximal age, the
  age of the entry is at most the maximal age. On a hit \<^verbatim>\<open>executeTemplate\<close> stores the node
  as Succeeded with the outputs of the entry and the memoization status (hit, key, cache
  name), and returns it at once, before any pod is asked for; on a miss it stores the node
  as Pending with the memoization status recording the miss, and goes on.
\<close>

theorem executeTemplate_memoization:
  assumes fresh: "GetNodeByName woc nodeName = None"
    and resolved: "resolved = Inr templateStored"
    and processed: "processed = Inr tmpl"
    and memo: "TmplMemoize tmpl = Some m"
    and susp: "TmplNodeType tmpl = NodeTypeSuspend \<longrightarrow> TmplType tmpl = TemplateTypeSuspend"
    and cache: "cacheFactory (MemoizeCacheName m) = Some load"
    and load: "load (MemoizeKey m) = Inr entry"
    and age: "MaxAge m \<noteq> [] \<longrightarrow> ParseDuration lib (MaxAge m) = Some maxAge"
    and started: "now \<noteq> 0"
    and hit: "hit \<longleftrightarrow> (\<exists>e. entry = Some e
                           \<and> (MaxAge m \<noteq> [] \<longrightarrow> now - CreationTimestamp e \<le> maxAge))"
  shows "(hit \<longrightarrow>
            (\<exists>woc' node. executeTemplate_start now lib cacheFactory woc nodeName org scope
                   boundaryID resolved processed = Inr (woc', Returned (Some node) None)
               \<and> Phase node = NodeSucceeded
               \<and> NodeOutputs node = GetOutputs entry
               \<and> NodeMemoizationStatus node
                    = Some \<lparr>Hit = True, Key = MemoizeKey m, CacheName = MemoizeCacheName m\<rparr>
               \<and> GetNodeByName woc' nodeName = Some node))
       \<and> (\<not> hit \<longrightarrow>
            (\<exists>woc' node. executeTemplate_start now lib cacheFactory woc nodeName org scope
                   boundaryID resolved processed = Inr (woc', Proceeds (Some node) tmpl)
               \<and> Phase node = NodePending
               \<and> NodeMemoizationStatus node
                    = Some \<lparr>Hit = False, Key = MemoizeKey m, CacheName = MemoizeCacheName m\<rparr>
               \<and> GetNodeByName woc' nodeName = Some node))"
proof -
  define wocS where "wocS = (if templateStored then woc\<lparr>updated := True\<rparr> else woc)"
  have freshS: "GetNodeByName wocS nodeName = None"
    using fresh by (simp add: wocS_def GetNodeByName_def)
  have idS: "NodeID (wfObj wocS) = NodeID (wfObj woc)" by (simp add: wocS_def)
  define outs where "outs = (if MaxAge m \<noteq> [] then fst (GetOutputsWithMaxAge now entry maxAge)
                              else GetOutputs entry)"
  have sel: "(if MaxAge m \<noteq> []
              then (case ParseDuration lib (MaxAge m) of
                      None \<Rightarrow> None
                    | Some maxAge \<Rightarrow>
                        let (maxAgeOutputs, ok) = GetOutputsWithMaxAge now entry maxAge
                        in Some (if \<not> ok then False else EntryHit entry, maxAgeOutputs))
              else Some (EntryHit entry, GetOutputs entry)) = Some (hit, outs)"
    using age hit
    by (auto simp: outs_def GetOutputsWithMaxAge_def EntryHit_def Let_def split: option.splits)
  have outs_hit: "hit \<Longrightarrow> outs = GetOutputs entry"
    using hit by (auto simp: outs_def GetOutputsWithMaxAge_def GetOutputs_def)
  let ?ms = "\<lambda>h. \<lparr>Hit = h, Key = MemoizeKey m, CacheName = MemoizeCacheName m\<rparr>"
  from cacheNode_shape [OF freshS memo susp, of now scope org boundaryID "?ms hit"]
  obtain woc1 node1 where
    c: "initializeCacheNode now wocS nodeName tmpl scope org boundaryID (?ms hit) []
          = Inr (woc1, node1)"
    and f: "ID node1 = NodeID (wfObj woc) nodeName" "Name node1 = nodeName"
           "Phase node1 = NodePending" "NodeMemoizationStatus node1 = Some (?ms hit)"
           "NodeID (wfObj woc1) = NodeID (wfObj woc)" "StartedAt node1 = now"
    using idS by auto
  show ?thesis
  proof (cases hit)
    case True
    let ?n = "node1\<lparr>Phase := NodeSucceeded, NodeOutputs := outs, FinishedAt := now\<rparr>"
    have mc: "memoizationCheck now lib cacheFactory wocS nodeName tmpl m scope org boundaryID
                = Inr ((setNode woc1 (ID ?n) ?n)\<lparr>updated := True\<rparr>, ?n)"
      using cache load sel c True
      by (simp add: memoizationCheck_def initializeCacheHitNode_def)
    have "executeTemplate_start now lib cacheFactory woc nodeName org scope boundaryID
            resolved processed
          = Inr (((setNode woc1 (ID ?n) ?n)\<lparr>updated := True\<rparr>)
                   \<lparr>syncReleased := syncReleased ((setNode woc1 (ID ?n) ?n)\<lparr>updated := True\<rparr>)
                                     @ [ID ?n]\<rparr>,
                 Returned (Some ?n) None)"
      using fresh resolved processed memo mc
      by (simp add: executeTemplate_start_def wocS_def Let_def)
    moreover have "GetNodeByName (((setNode woc1 (ID ?n) ?n)\<lparr>updated := True\<rparr>)
                   \<lparr>syncReleased := syncReleased ((setNode woc1 (ID ?n) ?n)\<lparr>updated := True\<rparr>)
                                     @ [ID ?n]\<rparr>) nodeName = Some ?n"
      using f by (simp add: GetNodeByName_def setNode_def update_conv')
    ultimately show ?thesis using True f outs_hit by auto
  next
    case False
    have mc: "memoizationCheck now lib cacheFactory wocS nodeName tmpl m scope org boundaryID
                = Inr ((setNode woc1 (ID node1) node1)\<lparr>updated := True\<rparr>, node1)"
      using cache load sel c False
      by (simp add: memoizationCheck_def)
    have "executeTemplate_start now lib cacheFactory woc nodeName org scope boundaryID
            resolved processed
          = Inr ((setNode woc1 (ID node1) node1)\<lparr>updated := True\<rparr>, Proceeds (Some node1) tmpl)"
      using fresh resolved processed memo mc f started
      by (simp add: executeTemplate_start_def wocS_def Let_def)
    moreover have "GetNodeByName ((setNode woc1 (ID node1) node1)\<lparr>updated := True\<rparr>) nodeName
                     = Some node1"
      using f by (simp add: GetNodeByName_def setNode_def update_conv')
    ultimately show ?thesis using False f by auto
  qed
qed

theorem executeTemplate_memoization_witness:
  "GetNodeByName (exampleCtx []) ''wf'' = None
   \<and> exampleCacheFactory ''cache'' \<noteq> None
   \<and> 500 - CreationTimestamp exampleEntry \<le> (10000000000::int)
   \<and> (\<exists>woc' node. executeTemplate_start 500 exampleLibrary exampleCacheFactory (exampleCtx [])
           ''wf'' ''t'' [] [] (Inr False) (Inr exampleTemplate)
         = Inr (woc', Returned (Some node) None)
        \<and> Phase node = NodeSucceeded
        \<and> NodeOutputs node = EntryOutputs exampleEntry
        \<and> map_option Hit (NodeMemoizationStatus node) = Some True)"
proof -
  let ?m = "\<lparr>MemoizeKey = ''K'', MemoizeCacheName = ''cache'', MaxAge = ''10s''\<rparr>"
  let ?load = "\<lambda>key. if key = ''K'' then Inr (Some exampleEntry) else Inr None"
  have h1: "GetNodeByName (exampleCtx []) ''wf'' = None"
    and h2: "TmplMemoize exampleTemplate = Some ?m"
    and h3: "TmplNodeType exampleTemplate = NodeTypeSuspend
               \<longrightarrow> TmplType exampleTemplate = TemplateTypeSuspend"
    and h4: "exampleCacheFactory (MemoizeCacheName ?m) = Some ?load"
    and h5: "?load (MemoizeKey ?m) = Inr (Some exampleEntry)"
    and h6: "MaxAge ?m \<noteq> [] \<longrightarrow> ParseDuration exampleLibrary (MaxAge ?m) = Some 10000000000"
    and h7: "(500::int) \<noteq> 0"
    and h8: "True \<longleftrightarrow> (\<exists>e. Some exampleEntry = Some e
                \<and> (MaxAge ?m \<noteq> [] \<longrightarrow> 500 - CreationTimestamp e \<le> 10000000000))"
    by (simp_all add: GetNodeByName_def exampleCtx_def exampleWorkflow_def exampleTemplate_def
          exampleCacheFactory_def exampleLibrary_def exampleEntry_def)
  have o: "GetOutputs (Some exampleEntry) = EntryOutputs exampleEntry"
    by (simp add: GetOutputs_def)
  have a: "500 - CreationTimestamp exampleEntry \<le> (10000000000::int)"
    by (simp add: exampleEntry_def)
  note inst = executeTemplate_memoization
    [where woc = "exampleCtx []" and nodeName = "''wf''" and resolved = "Inr False"
       and templateStored = False and processed = "Inr exampleTemplate"
       and tmpl = exampleTemplate and m = ?m and cacheFactory = exampleCacheFactory
       and load = ?load and entry = "Some exampleEntry" and lib = exampleLibrary
       and maxAge = 10000000000 and now = 500 and hit = True and org = "''t''"
       and scope = "[]" and boundaryID = "[]"]
  from inst [OF h1 refl refl h2 h3 h4 h5 h6 h7 h8] h1 h4 o a
  show ?thesis by auto
qed

section \<open>The reason of a failed pod, container by container\<close>






section \<open>The nodes of the containers of a pod\<close>

text \<open>Marking the node of a container touches the entry of that node alone.\<close>

lemma markContainerNode_effect:
  assumes "GetNodeByName woc ctrNodeName = Some n"
    and "ID n = NodeID (wfObj woc) ctrNodeName"
  shows "\<exists>woc' n'. markContainerNode now woc ctrNodeName c = Inr woc'
           \<and> NodeID (wfObj woc') = NodeID (wfObj woc)
           \<and> (\<forall>k. k \<noteq> NodeID (wfObj woc) ctrNodeName
                  \<longrightarrow> map_of (nodes woc') k = map_of (nodes woc) k)
           \<and> map_of (nodes woc') (NodeID (wfObj woc) ctrNodeName) = Some n'
           \<and> ID n' = ID n
           \<and> (\<forall>p. specContainerPhase (CtrState c) = Some p \<longrightarrow> Phase n' = p)"
proof -
  note e = markNodePhase_effect [OF assms, of now]
  show ?thesis
  proof (cases "specContainerPhase (CtrState c)")
    case None
    then have "markContainerNode now woc ctrNodeName c = Inr woc"
      by (auto simp: markContainerNode_def specContainerPhase_def split: if_splits option.splits)
    with None assms show ?thesis by (auto simp: GetNodeByName_def)
  next
    case (Some p)
    then obtain ms where "markContainerNode now woc ctrNodeName c
                            = map_sum id fst (markNodePhase now woc ctrNodeName p ms)"
      by (auto simp: markContainerNode_def specContainerPhase_def Let_def
               split: if_splits option.splits)
    with e [of p ms] Some show ?thesis by auto
  qed
qed

text \<open>
  The loop over the containers, when their nodes have distinct IDs and each node that exists
  is stored under the ID of its name: every node of a container that existed before has,
  after the loop, the phase that the state of its container asks for, and the entries of
  all other nodes are as before.
\<close>

lemma markContainerNodes_effect:
  assumes "distinct (map (\<lambda>c. NodeID (wfObj woc) (nodeName @ ''.'' @ CtrName c)) cs)"
    and "\<forall>c\<in>set cs. \<forall>n. GetNodeByName woc (nodeName @ ''.'' @ CtrName c) = Some n
           \<longrightarrow> ID n = NodeID (wfObj woc) (nodeName @ ''.'' @ CtrName c)"
  shows "\<exists>woc'. markContainerNodes now woc nodeName cs = Inr woc'
           \<and> NodeID (wfObj woc') = NodeID (wfObj woc)
           \<and> (\<forall>k. k \<notin> (\<lambda>c. NodeID (wfObj woc) (nodeName @ ''.'' @ CtrName c)) ` set cs
                  \<longrightarrow> map_of (nodes woc') k = map_of (nodes woc) k)
           \<and> (\<forall>c\<in>set cs. \<forall>n. GetNodeByName woc (nodeName @ ''.'' @ CtrName c) = Some n
                  \<longrightarrow> (\<exists>n'. GetNodeByName woc' (nodeName @ ''.'' @ CtrName c) = Some n'
                         \<and> (\<forall>p. specContainerPhase (CtrState c) = Some p \<longrightarrow> Phase n' = p)))"
  using assms
proof (induction cs arbitrary: woc)
  case Nil
  then show ?case by simp
next
  case (Cons c cs)
  let ?sub = "\<lambda>w c. NodeID (wfObj w) (nodeName @ ''.'' @ CtrName c)"
  from Cons.prems(1) have dist: "distinct (map (?sub woc) cs)"
    and fresh: "?sub woc c \<notin> ?sub woc ` set cs" by simp_all
  show ?case
  proof (cases "GetNodeByName woc (nodeName @ ''.'' @ CtrName c)")
    case None
    from Cons.prems(2) have wfm: "\<forall>c\<in>set cs. \<forall>n.
        GetNodeByName woc (nodeName @ ''.'' @ CtrName c) = Some n \<longrightarrow> ID n = ?sub woc c"
      by simp
    from Cons.IH [OF dist wfm] obtain woc' where
      r: "markContainerNodes now woc nodeName cs = Inr woc'"
      and i: "NodeID (wfObj woc') = NodeID (wfObj woc)"
      and o: "\<forall>k. k \<notin> ?sub woc ` set cs \<longrightarrow> map_of (nodes woc') k = map_of (nodes woc) k"
      and p: "\<forall>c\<in>set cs. \<forall>n. GetNodeByName woc (nodeName @ ''.'' @ CtrName c) = Some n
                  \<longrightarrow> (\<exists>n'. GetNodeByName woc' (nodeName @ ''.'' @ CtrName c) = Some n'
                         \<and> (\<forall>p. specContainerPhase (CtrState c) = Some p \<longrightarrow> Phase n' = p))"
      by blast
    have "markContainerNodes now woc nodeName (c # cs) = Inr woc'"
      using None r by (simp add: Let_def)
    moreover have "\<forall>k. k \<notin> ?sub woc ` set (c # cs) \<longrightarrow> map_of (nodes woc') k = map_of (nodes woc) k"
      using o by simp
    moreover have "\<forall>d\<in>set (c # cs). \<forall>n.
        GetNodeByName woc (nodeName @ ''.'' @ CtrName d) = Some n
          \<longrightarrow> (\<exists>n'. GetNodeByName woc' (nodeName @ ''.'' @ CtrName d) = Some n'
                 \<and> (\<forall>p. specContainerPhase (CtrState d) = Some p \<longrightarrow> Phase n' = p))"
      using p None by auto
    ultimately show ?thesis using i by blast
  next
    case (Some n)
    with Cons.prems(2) have idn: "ID n = ?sub woc c" by simp
    from markContainerNode_effect [OF Some idn, of now c] obtain woc1 n1 where
      m: "markContainerNode now woc (nodeName @ ''.'' @ CtrName c) c = Inr woc1"
      and i1: "NodeID (wfObj woc1) = NodeID (wfObj woc)"
      and o1: "\<forall>k. k \<noteq> ?sub woc c \<longrightarrow> map_of (nodes woc1) k = map_of (nodes woc) k"
      and s1: "map_of (nodes woc1) (?sub woc c) = Some n1"
      and p1: "\<forall>p. specContainerPhase (CtrState c) = Some p \<longrightarrow> Phase n1 = p"
      by blast
    have ne: "?sub woc d \<noteq> ?sub woc c" if d: "d \<in> set cs" for d
    proof
      assume e: "?sub woc d = ?sub woc c"
      have "?sub woc c \<in> ?sub woc ` set cs"
        by (rule image_eqI [where x = d]) (use d e in simp_all)
      with fresh show False by contradiction
    qed
    have same: "\<And>d. d \<in> set cs \<Longrightarrow>
        GetNodeByName woc1 (nodeName @ ''.'' @ CtrName d)
          = GetNodeByName woc (nodeName @ ''.'' @ CtrName d)"
      using o1 i1 ne by (simp add: GetNodeByName_def)
    have dist1: "distinct (map (?sub woc1) cs)" using dist i1 by simp
    have wfm1: "\<forall>d\<in>set cs. \<forall>n.
        GetNodeByName woc1 (nodeName @ ''.'' @ CtrName d) = Some n \<longrightarrow> ID n = ?sub woc1 d"
      using Cons.prems(2) same i1 by simp
    from Cons.IH [OF dist1 wfm1] obtain woc' where
      r: "markContainerNodes now woc1 nodeName cs = Inr woc'"
      and i: "NodeID (wfObj woc') = NodeID (wfObj woc1)"
      and o: "\<forall>k. k \<notin> ?sub woc1 ` set cs \<longrightarrow> map_of (nodes woc') k = map_of (nodes woc1) k"
      and p: "\<forall>d\<in>set cs. \<forall>n. GetNodeByName woc1 (nodeName @ ''.'' @ CtrName d) = Some n
                  \<longrightarrow> (\<exists>n'. GetNodeByName woc' (nodeName @ ''.'' @ CtrName d) = Some n'
                         \<and> (\<forall>p. specContainerPhase (CtrState d) = Some p \<longrightarrow> Phase n' = p))"
      by blast
    have run: "markContainerNodes now woc nodeName (c # cs) = Inr woc'"
      using Some m r by (simp add: Let_def)
    have id': "NodeID (wfObj woc') = NodeID (wfObj woc)" using i i1 by simp
    have others: "\<forall>k. k \<notin> ?sub woc ` set (c # cs)
                    \<longrightarrow> map_of (nodes woc') k = map_of (nodes woc) k"
      using o o1 i1 by auto
    have keep: "GetNodeByName woc' (nodeName @ ''.'' @ CtrName c) = Some n1"
      using o s1 fresh i1 id' by (auto simp: GetNodeByName_def)
    have rest: "\<forall>d\<in>set cs. \<forall>n. GetNodeByName woc (nodeName @ ''.'' @ CtrName d) = Some n
                  \<longrightarrow> (\<exists>n'. GetNodeByName woc' (nodeName @ ''.'' @ CtrName d) = Some n'
                         \<and> (\<forall>p. specContainerPhase (CtrState d) = Some p \<longrightarrow> Phase n' = p))"
      using p same by simp
    have all: "\<forall>d\<in>set (c # cs). \<forall>n.
        GetNodeByName woc (nodeName @ ''.'' @ CtrName d) = Some n
          \<longrightarrow> (\<exists>n'. GetNodeByName woc' (nodeName @ ''.'' @ CtrName d) = Some n'
                 \<and> (\<forall>p. specContainerPhase (CtrState d) = Some p \<longrightarrow> Phase n' = p))"
    proof (intro ballI allI impI)
      fix d n0
      assume d: "d \<in> set (c # cs)"
        and g: "GetNodeByName woc (nodeName @ ''.'' @ CtrName d) = Some n0"
      show "\<exists>n'. GetNodeByName woc' (nodeName @ ''.'' @ CtrName d) = Some n'
                 \<and> (\<forall>p. specContainerPhase (CtrState d) = Some p \<longrightarrow> Phase n' = p)"
      proof (cases "d \<in> set cs")
        case True
        with rest g show ?thesis by blast
      next
        case False
        with d have "d = c" by simp
        with keep p1 show ?thesis by blast
      qed
    qed
    from run id' others all show ?thesis by blast
  qed
qed

lemma assessPodPhase_nodes:
  "assessPodPhase isMain woc pod node = Some (woc0, newPhase, newDaemonStatus, message)
     \<Longrightarrow> wfObj woc0 = wfObj woc"
  by (auto simp: assessPodPhase_def cleanUpPod_def Let_def
           split: PodPhase.splits if_splits option.splits sum.splits prod.splits)

text \<open>
  C8, as stated, fails: a running pod of a daemon template has the container "main", which
  exited with the code 64 and is not ready, and the node of that container exists and is
  Pending. The assessment returns before it looks at the containers: the context is as
  before, and the node of the container is still Pending, not Error.
\<close>

theorem assessNodeStatus_container_nodes_counterexample:
  "PodStatusPhase exampleDaemonPod = PodRunning
   \<and> ContainerStatuses exampleDaemonPod = [exampleContainer ''main'' (exited 64)]
   \<and> specContainerPhase (CtrState (exampleContainer ''main'' (exited 64))) = Some NodeError
   \<and> Name (exampleNode ''A'' NodeTypePod NodeRunning) @ ''.''
        @ CtrName (exampleContainer ''main'' (exited 64)) = ''A.main''
   \<and> map_option Phase (GetNodeByName exampleAssessCtx ''A.main'') = Some NodePending
   \<and> assessNodeStatus 500 exampleIsMain exampleAssessCtx exampleDaemonPod
        (exampleNode ''A'' NodeTypePod NodeRunning) = Inr (exampleAssessCtx, None)"
  by (simp add: assessNodeStatus_def assessPodPhase_def specContainerPhase_def
        GetNodeByName_def exampleDaemonPod_def exampleRunningPod_def examplePod_def
        exampleContainer_def exited_def exampleAssessCtx_def exampleCtx_def
        exampleWorkflow_def exampleNode_def)

text \<open>
  C8, amended. An assessment of a pod that reaches the containers, that is: the pod is not
  running, or it is running, its template annotation is present and readable and, for a
  daemon template, its containers are all ready. The nodes of the containers of the pod have
  distinct IDs and are stored under the ID of their name. Then the assessment ends without
  a panic, and for every container of the pod whose node (named after the node of the pod,
  a dot, and the container) exists, the node is stored afterwards with the phase Pending
  for a waiting, Running for a running container, and for a terminated container Succeeded
  for the exit code 0, Error for 64 and Failed for any other.
\<close>

theorem assessNodeStatus_container_nodes:
  assumes reach: "PodStatusPhase pod = PodRunning \<longrightarrow>
             (\<exists>daemon. PodTemplateAnnotation pod = Some (Inr daemon)
                \<and> (daemon \<longrightarrow> (\<forall>c\<in>set (ContainerStatuses pod). CtrReady c)))"
    and dist: "distinct (map (\<lambda>c. NodeID (wfObj woc) (Name node @ ''.'' @ CtrName c))
                   (ContainerStatuses pod))"
    and stored: "\<forall>c\<in>set (ContainerStatuses pod). \<forall>n.
             GetNodeByName woc (Name node @ ''.'' @ CtrName c) = Some n
               \<longrightarrow> ID n = NodeID (wfObj woc) (Name node @ ''.'' @ CtrName c)"
    and ctr: "c \<in> set (ContainerStatuses pod)"
    and exists: "GetNodeByName woc (Name node @ ''.'' @ CtrName c) = Some n"
    and state: "specContainerPhase (CtrState c) = Some p"
  shows "\<exists>woc' newState n'. assessNodeStatus now isMain woc pod node = Inr (woc', newState)
           \<and> GetNodeByName woc' (Name node @ ''.'' @ CtrName c) = Some n'
           \<and> Phase n' = p"
proof -
  from reach have "assessPodPhase isMain woc pod node \<noteq> None"
    by (cases "PodStatusPhase pod")
       (auto simp: assessPodPhase_def Let_def list_ex_iff split: prod.splits)
  then obtain woc0 newPhase newDaemonStatus message where
    a: "assessPodPhase isMain woc pod node = Some (woc0, newPhase, newDaemonStatus, message)"
    by (cases "assessPodPhase isMain woc pod node") auto
  from assessPodPhase_nodes [OF a] have w: "wfObj woc0 = wfObj woc" .
  have g: "\<And>name. GetNodeByName woc0 name = GetNodeByName woc name"
    using w by (simp add: GetNodeByName_def)
  from markContainerNodes_effect [of woc0 "Name node" "ContainerStatuses pod" now]
    dist stored w g
  obtain woc' where
    r: "markContainerNodes now woc0 (Name node) (ContainerStatuses pod) = Inr woc'"
    and p: "\<forall>c\<in>set (ContainerStatuses pod). \<forall>n.
              GetNodeByName woc0 (Name node @ ''.'' @ CtrName c) = Some n
                \<longrightarrow> (\<exists>n'. GetNodeByName woc' (Name node @ ''.'' @ CtrName c) = Some n'
                       \<and> (\<forall>p. specContainerPhase (CtrState c) = Some p \<longrightarrow> Phase n' = p))"
    by auto
  from p g have p': "\<forall>c\<in>set (ContainerStatuses pod). \<forall>n.
              GetNodeByName woc (Name node @ ''.'' @ CtrName c) = Some n
                \<longrightarrow> (\<exists>n'. GetNodeByName woc' (Name node @ ''.'' @ CtrName c) = Some n'
                       \<and> (\<forall>p. specContainerPhase (CtrState c) = Some p \<longrightarrow> Phase n' = p))"
    by simp
  from p' ctr exists state obtain n' where
    "GetNodeByName woc' (Name node @ ''.'' @ CtrName c) = Some n'" "Phase n' = p"
    by blast
  with a r show ?thesis
    by (auto simp: assessNodeStatus_def Let_def split: prod.splits)
qed

theorem assessNodeStatus_container_nodes_witness:
  "exampleContainer ''main'' (exited 64) \<in> set (ContainerStatuses exampleRunningPod)
   \<and> GetNodeByName exampleAssessCtx ''A.main''
        = Some (exampleNode ''A.main'' NodeTypeContainer NodePending)
   \<and> specContainerPhase (exited 64) = Some NodeError
   \<and> (\<exists>woc' newState n'.
         assessNodeStatus 500 exampleIsMain exampleAssessCtx exampleRunningPod
           (exampleNode ''A'' NodeTypePod NodeRunning) = Inr (woc', newState)
         \<and> GetNodeByName woc' ''A.main'' = Some n' \<and> Phase n' = NodeError)"
proof -
  let ?node = "exampleNode ''A'' NodeTypePod NodeRunning"
  let ?c = "exampleContainer ''main'' (exited 64)"
  let ?n = "exampleNode ''A.main'' NodeTypeContainer NodePending"
  have h1: "PodStatusPhase exampleRunningPod = PodRunning \<longrightarrow>
             (\<exists>daemon. PodTemplateAnnotation exampleRunningPod = Some (Inr daemon)
                \<and> (daemon \<longrightarrow> (\<forall>c\<in>set (ContainerStatuses exampleRunningPod). CtrReady c)))"
    by (auto simp: exampleRunningPod_def examplePod_def)
  have h2: "distinct (map (\<lambda>c. NodeID (wfObj exampleAssessCtx) (Name ?node @ ''.'' @ CtrName c))
                   (ContainerStatuses exampleRunningPod))"
    and h4: "?c \<in> set (ContainerStatuses exampleRunningPod)"
    and h6: "specContainerPhase (CtrState ?c) = Some NodeError"
    and h7: "specContainerPhase (exited 64) = Some NodeError"
    by (simp_all add: exampleRunningPod_def examplePod_def exampleContainer_def exited_def
          specContainerPhase_def)
  have h5: "GetNodeByName exampleAssessCtx (Name ?node @ ''.'' @ CtrName ?c) = Some ?n"
    and h5': "GetNodeByName exampleAssessCtx ''A.main'' = Some ?n"
    by (simp_all add: GetNodeByName_def exampleAssessCtx_def exampleCtx_def exampleWorkflow_def
          exampleNode_def exampleContainer_def)
  have h3: "\<forall>c\<in>set (ContainerStatuses exampleRunningPod). \<forall>n.
             GetNodeByName exampleAssessCtx (Name ?node @ ''.'' @ CtrName c) = Some n
               \<longrightarrow> ID n = NodeID (wfObj exampleAssessCtx) (Name ?node @ ''.'' @ CtrName c)"
    by (auto simp: GetNodeByName_def exampleAssessCtx_def exampleCtx_def exampleWorkflow_def
          exampleNode_def exampleContainer_def exampleRunningPod_def examplePod_def)
  have nm: "Name ?node @ ''.'' @ CtrName ?c = ''A.main''"
    by (simp add: exampleNode_def exampleContainer_def)
  from assessNodeStatus_container_nodes [OF h1 h2 h3 h4 h5 h6, of 500 exampleIsMain]
    h4 h5' h7 nm
  show ?thesis by auto
qed

section \<open>Nodes whose pod was not seen\<close>

lemma list_all_update:
  "list_all P al \<Longrightarrow> P (k, v) \<Longrightarrow> list_all P (AList.update k v al)"
  by (induction al) auto

lemma wellFormedNodes_lookup:
  "wellFormedNodes woc \<Longrightarrow> map_of (nodes woc) k = Some n
     \<Longrightarrow> ID n = k \<and> NodeID (wfObj woc) (Name n) = k"
  by (auto simp: wellFormedNodes_def list_all_iff dest!: map_of_SomeD)

lemma wellFormedNodes_update:
  assumes "wellFormedNodes woc" and "map_of (nodes woc) k = Some n"
    and "ID n' = k" and "NodeID (wfObj woc) (Name n') = k"
    and "wfObj woc' = (wfObj woc)\<lparr>wfNodes := AList.update k n' (nodes woc)\<rparr>"
  shows "wellFormedNodes woc'"
proof -
  from assms(2) have "k \<in> set (map fst (nodes woc))"
    by (auto dest: map_of_SomeD intro: rev_image_eqI)
  with assms show ?thesis
    by (simp add: wellFormedNodes_def update_keys list_all_update)
qed

text \<open>
  Marking a node changes the node map of the workflow at the ID of the node, and nothing
  else of the workflow.
\<close>

lemma markNodePhase_wfObj:
  assumes "markNodePhase now woc nodeName phase ms = Inr (woc', node')"
  shows "wfObj woc' = (wfObj woc)\<lparr>wfNodes := AList.update (ID node') node' (nodes woc)\<rparr>"
  using assms
  by (auto simp: markNodePhase_def Let_def setNode_def split: option.splits)

lemma checkDeletedPod_deleted:
  assumes wfm: "wellFormedNodes woc" and look: "map_of (nodes woc) k = Some node"
  shows "\<exists>woc' n'. map_sum id fst
            (markNodePhase now (if Daemoned node = Some True then woc\<lparr>updated := True\<rparr> else woc)
               (Name node) NodeError [''pod deleted'']) = Inr woc'
           \<and> wellFormedNodes woc'
           \<and> map fst (nodes woc') = map fst (nodes woc)
           \<and> (\<forall>k'. k' \<noteq> k \<longrightarrow> map_of (nodes woc') k' = map_of (nodes woc) k')
           \<and> requeued woc' = requeued woc
           \<and> map_of (nodes woc') k = Some n' \<and> Phase n' = NodeError
           \<and> Message n' = ''pod deleted''"
proof -
  from wellFormedNodes_lookup [OF wfm look]
  have idn: "ID node = k" "NodeID (wfObj woc) (Name node) = k" by simp_all
  define w where "w = (if Daemoned node = Some True then woc\<lparr>updated := True\<rparr> else woc)"
  have ww: "wfObj w = wfObj woc" "requeued w = requeued woc" by (simp_all add: w_def)
  have gw: "GetNodeByName w (Name node) = Some node"
    "ID node = NodeID (wfObj w) (Name node)"
    using look idn ww by (simp_all add: GetNodeByName_def)
  from markNodePhase_effect [OF gw, of now NodeError "[''pod deleted'']"]
  obtain wm nm where
    m: "markNodePhase now w (Name node) NodeError [''pod deleted''] = Inr (wm, nm)"
    and mi: "NodeID (wfObj wm) = NodeID (wfObj w)"
    and mk: "map fst (nodes wm) = map fst (nodes w)"
    and mo: "\<forall>k'. k' \<noteq> NodeID (wfObj w) (Name node)
                \<longrightarrow> map_of (nodes wm) k' = map_of (nodes w) k'"
    and ms: "map_of (nodes wm) (NodeID (wfObj w) (Name node)) = Some nm"
    and mp: "Phase nm = NodeError" "ID nm = ID node" "Name nm = Name node"
    and mm: "\<forall>m. [''pod deleted''] = [m] \<longrightarrow> Message nm = m"
    and mr: "requeued wm = requeued w"
    by blast
  from mm have msg: "Message nm = ''pod deleted''" by simp
  have key: "NodeID (wfObj w) (Name node) = k" using idn ww by simp
  from markNodePhase_wfObj [OF m]
  have obj: "wfObj wm = (wfObj woc)\<lparr>wfNodes := AList.update k nm (nodes woc)\<rparr>"
    using ww mp idn by simp
  have mw: "wellFormedNodes wm"
  proof (rule wellFormedNodes_update)
    show "wellFormedNodes woc" by fact
    show "map_of (nodes woc) k = Some node" by fact
    show "ID nm = k" using mp idn by simp
    show "NodeID (wfObj woc) (Name nm) = k" using mp idn by simp
    show "wfObj wm = (wfObj woc)\<lparr>wfNodes := AList.update k nm (nodes woc)\<rparr>" by fact
  qed
  have "map_sum id fst (markNodePhase now w (Name node) NodeError [''pod deleted'']) = Inr wm"
    using m by simp
  moreover have "map fst (nodes wm) = map fst (nodes woc)" using mk ww by simp
  moreover have "\<forall>k'. k' \<noteq> k \<longrightarrow> map_of (nodes wm) k' = map_of (nodes woc) k'"
    using mo key ww by simp
  moreover have "map_of (nodes wm) k = Some nm" using ms key by simp
  moreover have "requeued wm = requeued woc" using mr ww by simp
  ultimately show ?thesis using mw mp msg unfolding w_def by blast
qed

text \<open>
  The body of the loop keeps the node map well formed and its keys, leaves all other nodes
  as they are, never takes back a requeue, and treats a pod node that is not fulfilled, has
  started and has no pod as the claim says.
\<close>

lemma checkDeletedPod_effect:
  assumes wfm: "wellFormedNodes woc" and look: "map_of (nodes woc) k = Some node"
  shows "\<exists>woc'. checkDeletedPod now env seen woc k node = Inr woc'
           \<and> wellFormedNodes woc'
           \<and> map fst (nodes woc') = map fst (nodes woc)
           \<and> (\<forall>k'. k' \<noteq> k \<longrightarrow> map_of (nodes woc') k' = map_of (nodes woc) k')
           \<and> (requeued woc \<longrightarrow> requeued woc')
           \<and> (Type node = NodeTypePod \<and> \<not> Fulfilled (Phase node) \<and> StartedAt node \<noteq> 0
                 \<and> seen k = None \<longrightarrow> missingPodOutcome now env node woc' k)"
proof -
  from wellFormedNodes_lookup [OF wfm look]
  have idn: "ID node = k" "NodeID (wfObj woc) (Name node) = k" by simp_all
  from look have kin: "k \<in> set (map fst (nodes woc))"
    by (auto dest: map_of_SomeD intro: rev_image_eqI)
  show ?thesis
  proof (cases "Type node \<noteq> NodeTypePod \<or> Fulfilled (Phase node) \<or> StartedAt node = 0")
    case True
    then have "checkDeletedPod now env seen woc k node = Inr woc"
      by (simp add: checkDeletedPod_def)
    with True wfm show ?thesis by auto
  next
    case False
    show ?thesis
    proof (cases "seen k")
      case (Some seenPod)
      let ?n = "node\<lparr>HostNodeName := PodSpecNodeName seenPod\<rparr>"
      let ?w = "(setNode woc k ?n)\<lparr>updated := True\<rparr>"
      have w: "wellFormedNodes ?w"
      proof (rule wellFormedNodes_update)
        show "wellFormedNodes woc" by fact
        show "map_of (nodes woc) k = Some node" by fact
        show "ID ?n = k" using idn by simp
        show "NodeID (wfObj woc) (Name ?n) = k" using idn by simp
        show "wfObj ?w = (wfObj woc)\<lparr>wfNodes := AList.update k ?n (nodes woc)\<rparr>"
          by (simp add: setNode_def)
      qed
      have r: "checkDeletedPod now env seen woc k node
                 = (if HostNodeName node \<noteq> PodSpecNodeName seenPod then Inr ?w else Inr woc)"
        using False Some by (simp add: checkDeletedPod_def)
      show ?thesis
      proof (cases "HostNodeName node \<noteq> PodSpecNodeName seenPod")
        case True
        with r have "checkDeletedPod now env seen woc k node = Inr ?w" by simp
        moreover have "map fst (nodes ?w) = map fst (nodes woc)"
          using kin by (simp add: update_keys)
        moreover have "\<forall>k'. k' \<noteq> k \<longrightarrow> map_of (nodes ?w) k' = map_of (nodes woc) k'"
          by (simp add: update_conv')
        moreover have "requeued woc \<longrightarrow> requeued ?w" by simp
        ultimately show ?thesis using w Some by auto
      next
        case same: False
        with r have "checkDeletedPod now env seen woc k node = Inr woc" by simp
        with wfm Some show ?thesis by auto
      qed
    next
      case None
      show ?thesis
      proof (cases "Phase node = NodePending \<and> waitingForSyncLock node")
        case True
        with False None have "checkDeletedPod now env seen woc k node = Inr woc"
          by (simp add: checkDeletedPod_def)
        with True wfm look show ?thesis by (auto simp: missingPodOutcome_def)
      next
        case nolock: False
        then have nl: "(Phase node = NodePending \<and> waitingForSyncLock node) = False" by simp
        show ?thesis
        proof (cases "recentlyStarted now env node")
          case True
          have w: "wellFormedNodes (woc\<lparr>requeued := True\<rparr>)"
            using wfm by (simp add: wellFormedNodes_def)
          have "checkDeletedPod now env seen woc k node = Inr (woc\<lparr>requeued := True\<rparr>)"
            using False None True by (simp add: checkDeletedPod_def nl)
          with w True look show ?thesis by (auto simp: missingPodOutcome_def nl)
        next
          case notrecent: False
          from checkDeletedPod_deleted [OF wfm look, of now] obtain wm nm where
            m: "map_sum id fst
                  (markNodePhase now
                     (if Daemoned node = Some True then woc\<lparr>updated := True\<rparr> else woc)
                     (Name node) NodeError [''pod deleted'']) = Inr wm"
            and mw: "wellFormedNodes wm"
            and mk: "map fst (nodes wm) = map fst (nodes woc)"
            and mo: "\<forall>k'. k' \<noteq> k \<longrightarrow> map_of (nodes wm) k' = map_of (nodes woc) k'"
            and mr: "requeued wm = requeued woc"
            and ms: "map_of (nodes wm) k = Some nm" "Phase nm = NodeError"
                    "Message nm = ''pod deleted''"
            by blast
          have "checkDeletedPod now env seen woc k node = Inr wm"
            using False None notrecent m by (simp add: checkDeletedPod_def Let_def nl)
          moreover have "missingPodOutcome now env node wm k"
            using notrecent ms by (simp add: missingPodOutcome_def nl)
          ultimately show ?thesis using mw mk mo mr by auto
        qed
      qed
    qed
  qed
qed

lemma missingPodOutcome_cong:
  assumes "missingPodOutcome now env node wocA k"
    and "map_of (nodes wocB) k = map_of (nodes wocA) k"
    and "requeued wocA \<longrightarrow> requeued wocB"
  shows "missingPodOutcome now env node wocB k"
  using assms by (simp add: missingPodOutcome_def split: if_splits)

text \<open>
  The loop over a list of distinct IDs of nodes: it does not panic, and every node it
  visits is treated as the body of the loop treats it, since no later round of the loop
  touches the node again or takes back the requeue.
\<close>

lemma checkDeletedPods_effect:
  assumes "wellFormedNodes woc" and "distinct ks" and "set ks \<subseteq> set (map fst (nodes woc))"
  shows "\<exists>woc'. checkDeletedPods now env seen woc ks = Inr woc'
           \<and> wellFormedNodes woc'
           \<and> map fst (nodes woc') = map fst (nodes woc)
           \<and> (\<forall>k'. k' \<notin> set ks \<longrightarrow> map_of (nodes woc') k' = map_of (nodes woc) k')
           \<and> (requeued woc \<longrightarrow> requeued woc')
           \<and> (\<forall>k node. k \<in> set ks \<and> map_of (nodes woc) k = Some node
                 \<and> Type node = NodeTypePod \<and> \<not> Fulfilled (Phase node) \<and> StartedAt node \<noteq> 0
                 \<and> seen k = None \<longrightarrow> missingPodOutcome now env node woc' k)"
  using assms
proof (induction ks arbitrary: woc)
  case Nil
  then show ?case by simp
next
  case (Cons k rest)
  from Cons.prems(3) have "k \<in> fst ` set (nodes woc)" by simp
  then have "map_of (nodes woc) k \<noteq> None" by (simp add: map_of_eq_None_iff)
  then obtain node where look: "map_of (nodes woc) k = Some node" by blast
  from checkDeletedPod_effect [OF Cons.prems(1) look, of now env seen] obtain wocA where
    a: "checkDeletedPod now env seen woc k node = Inr wocA"
    and aw: "wellFormedNodes wocA"
    and ak: "map fst (nodes wocA) = map fst (nodes woc)"
    and ao: "\<forall>k'. k' \<noteq> k \<longrightarrow> map_of (nodes wocA) k' = map_of (nodes woc) k'"
    and ar: "requeued woc \<longrightarrow> requeued wocA"
    and am: "Type node = NodeTypePod \<and> \<not> Fulfilled (Phase node) \<and> StartedAt node \<noteq> 0
               \<and> seen k = None \<longrightarrow> missingPodOutcome now env node wocA k"
    by blast
  from Cons.prems have dr: "distinct rest" and kr: "k \<notin> set rest"
    and sr: "set rest \<subseteq> set (map fst (nodes wocA))"
    using ak by simp_all
  from Cons.IH [OF aw dr sr] obtain wocB where
    b: "checkDeletedPods now env seen wocA rest = Inr wocB"
    and bw: "wellFormedNodes wocB"
    and bk: "map fst (nodes wocB) = map fst (nodes wocA)"
    and bo: "\<forall>k'. k' \<notin> set rest \<longrightarrow> map_of (nodes wocB) k' = map_of (nodes wocA) k'"
    and br: "requeued wocA \<longrightarrow> requeued wocB"
    and bm: "\<forall>k' node'. k' \<in> set rest \<and> map_of (nodes wocA) k' = Some node'
               \<and> Type node' = NodeTypePod \<and> \<not> Fulfilled (Phase node') \<and> StartedAt node' \<noteq> 0
               \<and> seen k' = None \<longrightarrow> missingPodOutcome now env node' wocB k'"
    by blast
  have r: "checkDeletedPods now env seen woc (k # rest) = Inr wocB"
    using look a b by simp
  have o: "\<forall>k'. k' \<notin> set (k # rest) \<longrightarrow> map_of (nodes wocB) k' = map_of (nodes woc) k'"
    using ao bo by simp
  have m: "missingPodOutcome now env n wocB kk"
    if h: "kk \<in> set (k # rest)" "map_of (nodes woc) kk = Some n" "Type n = NodeTypePod"
          "\<not> Fulfilled (Phase n)" "StartedAt n \<noteq> 0" "seen kk = None" for kk n
  proof (cases "kk = k")
    case True
    with h look have "n = node" by simp
    with am h True have "missingPodOutcome now env n wocA kk" by simp
    moreover from bo kr True have "map_of (nodes wocB) kk = map_of (nodes wocA) kk" by simp
    ultimately show ?thesis using br by (rule missingPodOutcome_cong)
  next
    case False
    with h have "kk \<in> set rest" by simp
    moreover from ao False h have "map_of (nodes wocA) kk = Some n" by simp
    ultimately show ?thesis using bm h by blast
  qed
  from r bw ak bk o ar br m show ?case by auto
qed

text \<open>
  C9. In \<^verbatim>\<open>podReconciliation\<close>, take a node that is of type Pod, is not in a terminal
  phase, has a started time that is not zero, and for which no pod was seen. The loop
  over the nodes ends without a panic, and after it: if the node is Pending because it
  waits for a synchronization lock, it is unchanged; otherwise, if it started within the
  grace window (\<^verbatim>\<open>RECENTLY_STARTED_POD_DURATION\<close>, ten seconds when the variable is not set),
  the workflow is requeued and the node is unchanged; otherwise the node is in phase Error
  with the message "pod deleted". The nodes are taken to be stored under their IDs, the ID
  of a node being the ID of its name.
\<close>

theorem podReconciliation_deleted_pods:
  assumes "wellFormedNodes woc"
    and "map_of (nodes woc) nodeID = Some node"
    and "Type node = NodeTypePod" and "\<not> Fulfilled (Phase node)" and "StartedAt node \<noteq> 0"
    and "seenPods nodeID = None"
  shows "(\<exists>woc'. podReconciliation_deletedPods now env seenPods woc = Inr woc'
            \<and> (if Phase node = NodePending \<and> waitingForSyncLock node
                then map_of (nodes woc') nodeID = Some node
                else if recentlyStarted now env node
                then requeued woc' \<and> map_of (nodes woc') nodeID = Some node
                else (\<exists>n'. map_of (nodes woc') nodeID = Some n' \<and> Phase n' = NodeError
                             \<and> Message n' = ''pod deleted'')))
         \<and> (recentlyStarted now None node \<longleftrightarrow> now - StartedAt node \<le> 10 * 1000000000)"
proof -
  from assms(1) have d: "distinct (map fst (nodes woc))" by (simp add: wellFormedNodes_def)
  from assms(2) have kin: "nodeID \<in> set (map fst (nodes woc))"
    by (auto dest: map_of_SomeD intro: rev_image_eqI)
  from checkDeletedPods_effect [OF assms(1) d subset_refl, of now env seenPods]
  obtain woc' where
    r: "checkDeletedPods now env seenPods woc (map fst (nodes woc)) = Inr woc'"
    and m: "\<forall>k n. k \<in> set (map fst (nodes woc)) \<and> map_of (nodes woc) k = Some n
               \<and> Type n = NodeTypePod \<and> \<not> Fulfilled (Phase n) \<and> StartedAt n \<noteq> 0
               \<and> seenPods k = None \<longrightarrow> missingPodOutcome now env n woc' k"
    by blast
  from m kin assms have "missingPodOutcome now env node woc' nodeID" by blast
  then have "if Phase node = NodePending \<and> waitingForSyncLock node
               then map_of (nodes woc') nodeID = Some node
               else if recentlyStarted now env node
               then requeued woc' \<and> map_of (nodes woc') nodeID = Some node
               else (\<exists>n'. map_of (nodes woc') nodeID = Some n' \<and> Phase n' = NodeError
                            \<and> Message n' = ''pod deleted'')"
    by (simp add: missingPodOutcome_def split: if_splits option.splits)
  with r have "\<exists>woc'. podReconciliation_deletedPods now env seenPods woc = Inr woc'
           \<and> (if Phase node = NodePending \<and> waitingForSyncLock node
               then map_of (nodes woc') nodeID = Some node
               else if recentlyStarted now env node
               then requeued woc' \<and> map_of (nodes woc') nodeID = Some node
               else (\<exists>n'. map_of (nodes woc') nodeID = Some n' \<and> Phase n' = NodeError
                            \<and> Message n' = ''pod deleted''))"
    unfolding podReconciliation_deletedPods_def by blast
  moreover have "recentlyStarted now None node \<longleftrightarrow> now - StartedAt node \<le> 10 * 1000000000"
    by (simp add: recentlyStarted_def)
  ultimately show ?thesis by (rule conjI)
qed

text \<open>
  The theorem at a workflow whose pod node \<open>A\<close>, running since time 100, has no pod twenty
  seconds later: the node ends in Error with the message "pod deleted".
\<close>

theorem podReconciliation_deleted_pods_witness:
  "\<exists>woc' n'. podReconciliation_deletedPods 20000000100 None Map.empty exampleAssessCtx = Inr woc'
      \<and> map_of (nodes woc') ''A'' = Some n' \<and> Phase n' = NodeError
      \<and> Message n' = ''pod deleted''"
proof -
  let ?node = "exampleNode ''A'' NodeTypePod NodeRunning"
  have h1: "wellFormedNodes exampleAssessCtx"
    by (simp add: wellFormedNodes_def exampleAssessCtx_def exampleCtx_def exampleWorkflow_def
        exampleNode_def)
  have h2: "map_of (nodes exampleAssessCtx) ''A'' = Some ?node"
    by (simp add: exampleAssessCtx_def exampleCtx_def exampleWorkflow_def)
  have h3: "Type ?node = NodeTypePod" by (simp add: exampleNode_def)
  have h4: "\<not> Fulfilled (Phase ?node)"
    by (simp add: exampleNode_def)
  have h5: "StartedAt ?node \<noteq> 0" by (simp add: exampleNode_def)
  have h6: "(Map.empty :: string \<rightharpoonup> Pod) ''A'' = None" by simp
  have n1: "\<not> (Phase ?node = NodePending \<and> waitingForSyncLock ?node)"
    by (simp add: exampleNode_def)
  have n2: "\<not> recentlyStarted 20000000100 None ?node"
    by (simp add: recentlyStarted_def exampleNode_def)
  from podReconciliation_deleted_pods [OF h1 h2 h3 h4 h5 h6, of 20000000100 None] n1 n2
  show ?thesis by auto
qed

end
